theory Spec2Isabelle
  imports Main
begin

section \<open>Conventions of the embedding\<close>

text \<open>
  The development embeds three parts of the program: the durable store
  (\<^verbatim>\<open>src/app/database.py\<close>), the supervisor (\<^verbatim>\<open>src/app/auto_add.py\<close>) and the
  QR login flow and distribution engine of \<^verbatim>\<open>src/app/session_manager.py\<close>.

  \<^item> Python strings are \<open>string\<close>, Python integers are \<open>int\<close>, a dictionary is a map.
  \<^item> An awaited call that may raise is described by its \<open>outcome\<close>. Python's
    \<^verbatim>\<open>except Exception\<close> catches an \<open>Exception\<close> but not a \<open>BaseException\<close>
    (a cancellation), so the two are kept apart.
  \<^item> What the network answers is not computed by the program; it is passed to each
    function as a record of answers, and theorems quantify over it.
  \<^item> The SQLite store and the local file system are taken to execute every statement;
    calls on a Telegram client may raise.
  \<^item> Log lines and the \<^verbatim>\<open>operations\<close> table (written for observability, read by
    no decision) change none of the modelled state and are left out. So is a sleep,
    except inside the \<^verbatim>\<open>try\<close> of \<^verbatim>\<open>add_users_to_group\<close>, whose handler turns an
    exception of \<^verbatim>\<open>asyncio.sleep\<close> into the result of the run: there a sleep is a
    call that returns or raises.
\<close>

datatype exc = Exception string | BaseException string

datatype 'a outcome = Returns 'a | Raises exc

section \<open>The durable store: quota ledger and target queue\<close>

subsection \<open>Table \<^verbatim>\<open>session_limits\<close>\<close>

text \<open>
  \<^verbatim>\<open>UNIQUE(session_name, date)\<close> makes the table a map from that pair to
  \<^verbatim>\<open>users_added\<close>. The calendar day \<^verbatim>\<open>date.today().isoformat()\<close> is a parameter.
\<close>

type_synonym session_limits = "string \<times> string \<Rightarrow> int option"

definition users_added :: "session_limits \<Rightarrow> string \<Rightarrow> string \<Rightarrow> int" where
  "users_added tbl session_name day =
     (case tbl (session_name, day) of Some n \<Rightarrow> n | None \<Rightarrow> 0)"

definition get_session_daily_limit ::
  "session_limits \<Rightarrow> string \<Rightarrow> int \<Rightarrow> string \<Rightarrow> int" where
  "get_session_daily_limit tbl session_name max_daily today =
     (let added_today = (case tbl (session_name, today) of Some n \<Rightarrow> n | None \<Rightarrow> 0)
      in max_daily - added_today)"

definition insert_or_ignore_limit :: "session_limits \<Rightarrow> string \<Rightarrow> string \<Rightarrow> session_limits" where
  "insert_or_ignore_limit tbl session_name today =
     (case tbl (session_name, today) of
        None \<Rightarrow> tbl((session_name, today) \<mapsto> 0)
      | Some n \<Rightarrow> tbl)"

definition update_limit_plus_one :: "session_limits \<Rightarrow> string \<Rightarrow> string \<Rightarrow> session_limits" where
  "update_limit_plus_one tbl session_name today =
     (case tbl (session_name, today) of
        None \<Rightarrow> tbl
      | Some n \<Rightarrow> tbl((session_name, today) \<mapsto> n + 1))"

definition increment_session_limit :: "session_limits \<Rightarrow> string \<Rightarrow> string \<Rightarrow> session_limits" where
  "increment_session_limit tbl session_name today =
     update_limit_plus_one (insert_or_ignore_limit tbl session_name today) session_name today"

subsection \<open>Table \<^verbatim>\<open>phone_numbers\<close>\<close>

text \<open>
  The rows are kept in \<^verbatim>\<open>added_at\<close> order, the order of every \<^verbatim>\<open>SELECT\<close> of the
  source. The \<^verbatim>\<open>status\<close> column is text.
\<close>

record phone_row =
  row_phone :: string
  row_status :: string

definition get_pending_phone_numbers :: "phone_row list \<Rightarrow> phone_row list" where
  "get_pending_phone_numbers tbl = filter (\<lambda>r. row_status r = ''pending'') tbl"

definition set_phone_status :: "string \<Rightarrow> string \<Rightarrow> phone_row list \<Rightarrow> phone_row list" where
  "set_phone_status new_status p tbl =
     map (\<lambda>r. if row_phone r = p then r\<lparr>row_status := new_status\<rparr> else r) tbl"

definition mark_phone_added :: "string \<Rightarrow> phone_row list \<Rightarrow> phone_row list" where
  "mark_phone_added p tbl = set_phone_status ''added'' p tbl"

definition mark_phone_invited :: "string \<Rightarrow> phone_row list \<Rightarrow> phone_row list" where
  "mark_phone_invited p tbl = set_phone_status ''invited'' p tbl"

definition mark_phone_failed :: "string \<Rightarrow> phone_row list \<Rightarrow> phone_row list" where
  "mark_phone_failed p tbl = set_phone_status ''failed'' p tbl"

definition add_to_blacklist :: "string \<Rightarrow> string list \<Rightarrow> string list" where
  "add_to_blacklist p bl = (if p \<in> set bl then bl else bl @ [p])"

subsection \<open>Run results\<close>

text \<open>
  The dictionary \<^verbatim>\<open>results\<close> of \<^verbatim>\<open>add_users_to_group\<close> and the dictionary the
  function returns; a key that is absent is \<open>None\<close>.
\<close>

record run_counts =
  n_added :: int
  n_failed :: int
  n_invited :: int
  n_total :: int
  run_errors :: "string list"
  n_skipped :: int

record run_result =
  res_success :: bool
  res_message :: "string option"
  res_results :: "run_counts option"
  res_error :: "string option"

section \<open>The supervisor\<close>

subsection \<open>Instants and calendar days\<close>

text \<open>
  An aware UTC \<^verbatim>\<open>datetime\<close> is the number of microseconds since the epoch, the
  resolution of Python's type. \<^verbatim>\<open>date()\<close> is the day number and
  \<^verbatim>\<open>datetime.combine(day, time(hour, minute, tzinfo=utc))\<close> is \<open>combine\<close>.
\<close>

definition minute_us :: int where
  "minute_us = 60000000"

definition hour_us :: int where
  "hour_us = 60 * minute_us"

definition day_us :: int where
  "day_us = 24 * hour_us"

definition date_of :: "int \<Rightarrow> int" where
  "date_of t = t div day_us"

definition combine :: "int \<Rightarrow> int \<Rightarrow> int \<Rightarrow> int" where
  "combine day hour minute = day * day_us + hour * hour_us + minute * minute_us"

definition min_run_interval :: int where
  "min_run_interval = 5 * minute_us"

subsection \<open>Reading \<^verbatim>\<open>HH:MM\<close>\<close>

text \<open>
  \<^verbatim>\<open>int(part)\<close> on ASCII text: surrounding white space is dropped, one sign is
  allowed, digits may be grouped by single underscores. \<open>None\<close> is \<^verbatim>\<open>ValueError\<close>.
\<close>

definition is_space :: "char \<Rightarrow> bool" where
  "is_space c = (c \<in> set [CHR '' '', CHR 0x09, CHR 0x0A, CHR 0x0B, CHR 0x0C, CHR 0x0D])"

definition strip :: "string \<Rightarrow> string" where
  "strip s = rev (dropWhile is_space (rev (dropWhile is_space s)))"

definition is_digit :: "char \<Rightarrow> bool" where
  "is_digit c = (48 \<le> (of_char c :: nat) \<and> (of_char c :: nat) \<le> 57)"

definition digit_value :: "char \<Rightarrow> nat" where
  "digit_value c = of_char c - 48"

fun parse_digits :: "nat \<Rightarrow> string \<Rightarrow> nat option" where
  "parse_digits acc [] = Some acc"
| "parse_digits acc [c] = (if is_digit c then Some (acc * 10 + digit_value c) else None)"
| "parse_digits acc (c # d # cs) =
     (if is_digit c then parse_digits (acc * 10 + digit_value c) (d # cs)
      else if c = CHR ''_'' \<and> is_digit d then parse_digits (acc * 10 + digit_value d) cs
      else None)"

definition py_int :: "string \<Rightarrow> int option" where
  "py_int s =
     (let t = strip s;
          sgn = (case t of c # r \<Rightarrow> (if c = CHR ''-'' then - 1 else 1) | [] \<Rightarrow> (1::int));
          body = (case t of c # r \<Rightarrow> (if c = CHR ''-'' \<or> c = CHR ''+'' then r else t) | [] \<Rightarrow> t)
      in case body of
           [] \<Rightarrow> None
         | c # cs \<Rightarrow>
             (if is_digit c then map_option (\<lambda>n. sgn * int n) (parse_digits (digit_value c) cs)
              else None))"

text \<open>\<^verbatim>\<open>daily_start.split(':', 1)\<close>: one part without a colon, else two.\<close>

definition split_colon_once :: "string \<Rightarrow> string list" where
  "split_colon_once s =
     (if CHR '':'' \<in> set s
      then [takeWhile (\<lambda>c. c \<noteq> CHR '':'') s, tl (dropWhile (\<lambda>c. c \<noteq> CHR '':'') s)]
      else [s])"

text \<open>
  \<^verbatim>\<open>hour, minute = [int(part) for part in ...]\<close> followed by \<^verbatim>\<open>time(hour, minute)\<close>;
  \<open>None\<close> when any of them raises \<^verbatim>\<open>ValueError\<close>.
\<close>

definition parse_hour_minute :: "string \<Rightarrow> (int \<times> int) option" where
  "parse_hour_minute s =
     (case map py_int (split_colon_once s) of
        [Some hour, Some minute] \<Rightarrow>
          (if 0 \<le> hour \<and> hour \<le> 23 \<and> 0 \<le> minute \<and> minute \<le> 59
           then Some (hour, minute) else None)
      | _ \<Rightarrow> None)"

subsection \<open>Settings and supervisor state\<close>

datatype group_ref = Group_int int | Group_str string

datatype iso_text = Iso_instant int | Iso_malformed

text \<open>Python truthiness of an optional string and of an optional group id.\<close>

definition truthy :: "string option \<Rightarrow> bool" where
  "truthy v = (case v of Some (c # cs) \<Rightarrow> True | _ \<Rightarrow> False)"

definition group_truthy :: "group_ref option \<Rightarrow> bool" where
  "group_truthy v =
     (case v of
        None \<Rightarrow> False
      | Some (Group_int n) \<Rightarrow> n \<noteq> 0
      | Some (Group_str s) \<Rightarrow> s \<noteq> [])"

text \<open>The dictionary of \<^verbatim>\<open>AdminManager.get_settings()\<close>, by key.\<close>

record settings =
  auto_add_enabled :: bool
  target_group_id :: "group_ref option"
  daily_start_time :: "string option"
  delay_between_adds :: "int option"
  batch_size :: "int option"
  max_users_per_session :: "int option"
  invite_message :: "string option"

text \<open>
  The keys of table \<^verbatim>\<open>admin_settings\<close> that the supervisor reads and writes.
  \<^verbatim>\<open>auto_add_last_run\<close> holds ISO text: \<open>Iso_instant t\<close> parses to the UTC instant
  \<open>t\<close>, \<open>Iso_malformed\<close> makes \<^verbatim>\<open>datetime.fromisoformat\<close> raise \<^verbatim>\<open>ValueError\<close>.
\<close>

record supervisor_store =
  auto_add_running :: bool
  auto_add_last_run :: "iso_text option"
  auto_add_last_result :: "run_result option"
  auto_add_forced_wakeup :: "string option"

record supervisor =
  status_running :: bool
  status_next_run :: "int option"
  wake_event :: bool
  store :: supervisor_store

subsection \<open>\<^verbatim>\<open>_calculate_next_run\<close>\<close>

definition calculate_next_run ::
  "supervisor_store \<Rightarrow> settings \<Rightarrow> int \<Rightarrow> int \<times> supervisor_store" where
  "calculate_next_run db st now_utc =
     (if truthy (auto_add_forced_wakeup db)
      then (now_utc, db\<lparr>auto_add_forced_wakeup := None\<rparr>)
      else
        let last_run = (case auto_add_last_run db of
                          Some (Iso_instant t) \<Rightarrow> Some t
                        | _ \<Rightarrow> None)
        in case daily_start_time st of
             Some (c # cs) \<Rightarrow>
               (let start_today =
                      (case parse_hour_minute (c # cs) of
                         Some (hour, minute) \<Rightarrow> combine (date_of now_utc) hour minute
                       | None \<Rightarrow> now_utc)
                in if (case last_run of
                         Some t \<Rightarrow> date_of t = date_of now_utc \<and> start_today \<le> t
                       | None \<Rightarrow> False)
                   then (start_today + day_us, db)
                   else if start_today \<le> now_utc then (now_utc, db)
                   else (start_today, db))
           | _ \<Rightarrow>
               (case last_run of
                  None \<Rightarrow> (now_utc, db)
                | Some t \<Rightarrow>
                    (let earliest_next = t + min_run_interval
                     in (if now_utc < earliest_next then earliest_next else now_utc, db))))"

subsection \<open>\<^verbatim>\<open>_execute_cycle\<close>\<close>

record engine_args =
  arg_group_id :: group_ref
  arg_delay :: int
  arg_batch_size :: int
  arg_max_daily_per_session :: int
  arg_invite_message :: "string option"

text \<open>What the awaited calls of one cycle answer, and the clock when it finishes.\<close>

record cycle_env =
  refresh_active_sessions :: "unit outcome"
  add_users_to_group_call :: "engine_args \<Rightarrow> run_result outcome"
  refresh_target_group_member_count :: "unit outcome"
  finish_time :: int

definition or_default :: "int option \<Rightarrow> int \<Rightarrow> int" where
  "or_default v d = (case v of Some n \<Rightarrow> (if n = 0 then d else n) | None \<Rightarrow> d)"

definition to_group_id :: "group_ref \<Rightarrow> group_ref" where
  "to_group_id g =
     (case g of
        Group_int n \<Rightarrow> Group_int n
      | Group_str s \<Rightarrow> (case py_int s of Some n \<Rightarrow> Group_int n | None \<Rightarrow> Group_str s))"

definition cycle_args :: "group_ref \<Rightarrow> settings \<Rightarrow> engine_args" where
  "cycle_args target_group st =
     \<lparr>arg_group_id = to_group_id target_group,
      arg_delay = or_default (delay_between_adds st) 30,
      arg_batch_size = or_default (batch_size st) 5,
      arg_max_daily_per_session = or_default (max_users_per_session st) 80,
      arg_invite_message = invite_message st\<rparr>"

text \<open>The statements inside \<^verbatim>\<open>try\<close>: the store after them, or what they raise.\<close>

definition cycle_body ::
  "cycle_env \<Rightarrow> group_ref \<Rightarrow> settings \<Rightarrow> supervisor_store \<Rightarrow> supervisor_store outcome" where
  "cycle_body env target_group st db =
     (case refresh_active_sessions env of
        Raises e \<Rightarrow> Raises e
      | Returns u \<Rightarrow>
          (case add_users_to_group_call env (cycle_args target_group st) of
             Raises e \<Rightarrow> Raises e
           | Returns result \<Rightarrow>
               (case refresh_target_group_member_count env of
                  Raises (BaseException m) \<Rightarrow> Raises (BaseException m)
                | _ \<Rightarrow>
                    Returns (db\<lparr>auto_add_last_result := Some result,
                                auto_add_last_run := Some (Iso_instant (finish_time env))\<rparr>))))"

definition error_result :: "string \<Rightarrow> run_result" where
  "error_result m =
     \<lparr>res_success = False, res_message = None, res_results = None, res_error = Some m\<rparr>"

text \<open>
  The whole method: the flag is set, the body runs, \<^verbatim>\<open>except Exception\<close> stores an
  error result, \<^verbatim>\<open>finally\<close> clears the flag. The second component is the exception
  that leaves the method, if any.
\<close>

definition execute_cycle ::
  "cycle_env \<Rightarrow> group_ref \<Rightarrow> settings \<Rightarrow> supervisor \<Rightarrow> supervisor \<times> exc option" where
  "execute_cycle env target_group st s =
     (let s1 = s\<lparr>status_running := True, store := (store s)\<lparr>auto_add_running := True\<rparr>\<rparr>;
          after = (case cycle_body env target_group st (store s1) of
                     Returns db' \<Rightarrow> (db', None)
                   | Raises (Exception m) \<Rightarrow>
                       ((store s1)\<lparr>auto_add_last_result := Some (error_result m)\<rparr>, None)
                   | Raises (BaseException m) \<Rightarrow> (store s1, Some (BaseException m)))
      in (s1\<lparr>status_running := False,
              store := (fst after)\<lparr>auto_add_running := False\<rparr>,
              wake_event := False\<rparr>,
          snd after))"

subsection \<open>\<^verbatim>\<open>status\<close>\<close>

record status_snapshot =
  snap_running :: bool
  snap_enabled :: bool
  snap_next_run :: "int option"
  snap_last_run :: "iso_text option"
  snap_last_result :: "run_result option"

definition status :: "supervisor \<Rightarrow> settings \<Rightarrow> status_snapshot" where
  "status s st =
     \<lparr>snap_running = status_running s,
      snap_enabled = auto_add_enabled st,
      snap_next_run = status_next_run s,
      snap_last_run = auto_add_last_run (store s),
      snap_last_result = auto_add_last_result (store s)\<rparr>"

subsection \<open>\<^verbatim>\<open>_run_loop\<close>\<close>

text \<open>
  One \<open>tick\<close> is one pass of the \<^verbatim>\<open>while\<close> loop: the clock, the settings and the
  number of pending targets it reads, and the answers of the cycle it may launch.
  Between passes the store is written by the supervisor only.
\<close>

record tick =
  tick_now :: int
  tick_settings :: settings
  tick_pending :: int
  tick_cycle :: cycle_env

text \<open>
  The first component is the clock of the pass when it launched a cycle; the last is
  an exception that leaves the loop.
\<close>

definition run_loop_iteration ::
  "tick \<Rightarrow> supervisor \<Rightarrow> int option \<times> supervisor \<times> exc option" where
  "run_loop_iteration tk s =
     (let st = tick_settings tk;
          now_utc = tick_now tk;
          next = calculate_next_run (store s) st now_utc;
          s2 = s\<lparr>wake_event := False, store := snd next, status_next_run := Some (fst next)\<rparr>
      in if \<not> auto_add_enabled st then (None, s2, None)
         else case target_group_id st of
                None \<Rightarrow> (None, s2, None)
              | Some target_group \<Rightarrow>
                  (if \<not> group_truthy (Some target_group) then (None, s2, None)
                   else if tick_pending tk = 0 then (None, s2, None)
                   else if now_utc < fst next then (None, s2, None)
                   else (case execute_cycle (tick_cycle tk) target_group st s2 of
                           (s3, escaped) \<Rightarrow> (Some now_utc, s3, escaped))))"

fun run_loop_from :: "tick list \<Rightarrow> supervisor \<Rightarrow> int list \<times> supervisor" where
  "run_loop_from [] s = ([], s)"
| "run_loop_from (tk # tks) s =
     (case run_loop_iteration tk s of
        (launched, s', escaped) \<Rightarrow>
          (let here = (case launched of Some t \<Rightarrow> [t] | None \<Rightarrow> [])
           in case escaped of
                Some e \<Rightarrow> (here, s')
              | None \<Rightarrow> (case run_loop_from tks s' of (later, s'') \<Rightarrow> (here @ later, s''))))"

text \<open>The method: the last-run key is set to the clock at start, then the loop runs.\<close>

definition run_loop :: "int \<Rightarrow> tick list \<Rightarrow> supervisor \<Rightarrow> int list \<times> supervisor" where
  "run_loop start_time ticks s =
     run_loop_from ticks
       (s\<lparr>store := (store s)\<lparr>auto_add_last_run := Some (Iso_instant start_time)\<rparr>\<rparr>)"

section \<open>The session manager\<close>

subsection \<open>State\<close>

text \<open>
  A client is either the in-memory client of a QR attempt or a client bound to a
  credential file of partition \<^verbatim>\<open>users\<close> or \<^verbatim>\<open>admins\<close>. A Python dictionary whose
  iteration order matters is an association list in insertion order.
\<close>

datatype partition = Users | Admins

datatype client = Memory_client nat | File_client partition string

fun dict_set :: "'k \<Rightarrow> 'v \<Rightarrow> ('k \<times> 'v) list \<Rightarrow> ('k \<times> 'v) list" where
  "dict_set k v [] = [(k, v)]"
| "dict_set k v ((k', v') # d) = (if k' = k then (k, v) # d else (k', v') # dict_set k v d)"

text \<open>
  An entry of \<^verbatim>\<open>qr_sessions\<close>: its status, message and held client (the image, the
  creation time and the operation id are left out).
\<close>

record qr_attempt =
  qr_status :: string
  qr_message :: "string option"
  qr_client :: "client option"

text \<open>Rows of tables \<^verbatim>\<open>sessions\<close> and \<^verbatim>\<open>admin_session\<close> (credential columns left out).\<close>

record session_row =
  sess_name :: string
  sess_status :: string

record admin_row =
  adm_session_name :: string
  adm_user_id :: int

text \<open>
  The manager: its dictionaries, the tables and settings of the store it uses, the
  credential files (each remembers the identity whose key it holds), the clients whose
  \<^verbatim>\<open>disconnect()\<close> has completed, and the contact list of each session's account.
\<close>

record manager =
  sessions :: "(string \<times> client) list"
  admin_sessions :: "(string \<times> client) list"
  qr_sessions :: "string \<Rightarrow> qr_attempt option"
  user_sessions :: "int \<Rightarrow> string option"
  db_sessions :: "session_row list"
  db_admin_session :: "admin_row list"
  phone_numbers :: "phone_row list"
  limits :: session_limits
  blacklist :: "string list"
  use_admin_as_user :: bool
  use_user_as_admin :: bool
  stored_invite_message :: "string option"
  session_files :: "partition \<times> string \<Rightarrow> int option"
  disconnected :: "client list"
  contacts :: "string \<Rightarrow> string set"

definition create_session :: "string \<Rightarrow> string \<Rightarrow> session_row list \<Rightarrow> session_row list" where
  "create_session name st tbl =
     filter (\<lambda>r. sess_name r \<noteq> name) tbl @ [\<lparr>sess_name = name, sess_status = st\<rparr>]"

definition save_admin_session :: "string \<Rightarrow> int \<Rightarrow> admin_row list \<Rightarrow> admin_row list" where
  "save_admin_session name uid tbl =
     filter (\<lambda>r. adm_session_name r \<noteq> name) tbl
       @ [\<lparr>adm_session_name = name, adm_user_id = uid\<rparr>]"

definition get_admin_session :: "admin_row list \<Rightarrow> admin_row option" where
  "get_admin_session tbl = (case tbl of [] \<Rightarrow> None | r # rs \<Rightarrow> Some r)"

subsection \<open>\<^verbatim>\<open>_load_all_sessions\<close>\<close>

text \<open>
  For a row that is active, not yet loaded and has a credential file, a client is
  opened: it connects and is authorized, or is not authorized, or raises. The
  concurrent loads are taken in the order of the rows.
\<close>

datatype load_answer = Authorized | Unauthorized | Load_raises string

definition load_session :: "(string \<Rightarrow> load_answer) \<Rightarrow> session_row \<Rightarrow> manager \<Rightarrow> manager" where
  "load_session answers row m =
     (if sess_status row = ''active'' \<and> map_of (sessions m) (sess_name row) = None
      then (case session_files m (Users, sess_name row) of
              None \<Rightarrow> m
            | Some owner \<Rightarrow>
                (case answers (sess_name row) of
                   Authorized \<Rightarrow>
                     m\<lparr>sessions :=
                         dict_set (sess_name row) (File_client Users (sess_name row)) (sessions m)\<rparr>
                 | Unauthorized \<Rightarrow>
                     m\<lparr>disconnected := disconnected m @ [File_client Users (sess_name row)]\<rparr>
                 | Load_raises e \<Rightarrow> m))
      else m)"

definition load_all_sessions :: "(string \<Rightarrow> load_answer) \<Rightarrow> manager \<Rightarrow> manager" where
  "load_all_sessions answers m = fold (load_session answers) (db_sessions m) m"

subsection \<open>Processing one phone number\<close>

datatype call = Done | Fails string

datatype group_kind = Megagroup | Broadcast_channel | Chat | Other_kind

datatype request_answer =
    Request_ok
  | Already_participant
  | Privacy_restricted string
  | Not_mutual_contact string
  | Flood_wait string
  | Other_error string string

text \<open>
  What the network answers while one session processes one phone: the phones
  \<^verbatim>\<open>get_active_contact_lists\<close> returns, the import of the contact, the resolution of
  the group and of the user by the session's client, the invite request, whether
  \<^verbatim>\<open>_send_invite_link\<close> returns true, and the deletion of the contact. \<open>Fails e\<close> is an
  \<^verbatim>\<open>Exception\<close> whose text is \<open>e\<close>.
\<close>

record phone_env =
  pe_active_contacts :: "string set"
  pe_import_contacts :: call
  pe_resolve_group :: call
  pe_group_kind :: group_kind
  pe_resolve_user :: call
  pe_invite_request :: request_answer
  pe_send_invite_link :: bool
  pe_delete_contact :: call

record invite_result =
  inv_result :: bool
  inv_error :: "string option"
  inv_type :: "string option"

definition invite_failed :: "string \<Rightarrow> string \<Rightarrow> invite_result" where
  "invite_failed e t = \<lparr>inv_result = False, inv_error = Some e, inv_type = Some t\<rparr>"

definition invite_succeeded :: invite_result where
  "invite_succeeded = \<lparr>inv_result = True, inv_error = None, inv_type = None\<rparr>"

definition request_result :: "request_answer \<Rightarrow> invite_result" where
  "request_result a =
     (case a of
        Request_ok \<Rightarrow> invite_succeeded
      | Already_participant \<Rightarrow> invite_succeeded
      | Privacy_restricted e \<Rightarrow> invite_failed e ''UserPrivacyRestrictedError''
      | Not_mutual_contact e \<Rightarrow> invite_failed e ''UserNotMutualContactError''
      | Flood_wait e \<Rightarrow> invite_failed e ''FloodWaitError''
      | Other_error t e \<Rightarrow> invite_failed e t)"

definition invite_entity_to_group :: "group_kind \<Rightarrow> request_answer \<Rightarrow> invite_result" where
  "invite_entity_to_group kind a =
     (case kind of
        Broadcast_channel \<Rightarrow> invite_failed ''Cannot add users to broadcast channels'' ''ValueError''
      | Megagroup \<Rightarrow> request_result a
      | Chat \<Rightarrow> request_result a
      | Other_kind \<Rightarrow> invite_failed ''Invalid group type'' ''ValueError'')"

definition lower_char :: "char \<Rightarrow> char" where
  "lower_char c =
     (if 65 \<le> (of_char c :: nat) \<and> (of_char c :: nat) \<le> 90
      then char_of ((of_char c :: nat) + 32) else c)"

definition lower :: "string \<Rightarrow> string" where
  "lower s = map lower_char s"

fun contains :: "string \<Rightarrow> string \<Rightarrow> bool" where
  "contains sub [] = (sub = [])"
| "contains sub (c # cs) = (take (length sub) (c # cs) = sub \<or> contains sub cs)"

definition set_phones :: "(phone_row list \<Rightarrow> phone_row list) \<Rightarrow> manager \<Rightarrow> manager" where
  "set_phones f m = m\<lparr>phone_numbers := f (phone_numbers m)\<rparr>"

text \<open>The handler \<^verbatim>\<open>except Exception as add_error\<close> of the inner \<^verbatim>\<open>try\<close>.\<close>

definition handle_add_error ::
  "phone_env \<Rightarrow> string option \<Rightarrow> string \<Rightarrow> string \<Rightarrow> manager \<Rightarrow> string \<times> manager" where
  "handle_add_error pe invite_link p add_error m =
     (if truthy invite_link \<and> pe_send_invite_link pe
      then (''invited'', set_phones (mark_phone_invited p) m)
      else
        let m1 = set_phones (mark_phone_failed p) m;
            error_msg = lower add_error
        in (add_error,
            if list_ex (\<lambda>err. contains err error_msg)
                 [''no user'', ''not found'', ''invalid'', ''not mutual'']
            then m1\<lparr>blacklist := add_to_blacklist p (blacklist m1)\<rparr>
            else m1))"

text \<open>The body of the inner \<^verbatim>\<open>try\<close> together with its handler.\<close>

definition try_add ::
  "phone_env \<Rightarrow> string option \<Rightarrow> string \<Rightarrow> manager \<Rightarrow> string \<times> manager" where
  "try_add pe invite_link p m =
     (case pe_resolve_user pe of
        Fails e \<Rightarrow> handle_add_error pe invite_link p e m
      | Done \<Rightarrow>
          (let result = invite_entity_to_group (pe_group_kind pe) (pe_invite_request pe)
           in if inv_result result then (''added'', set_phones (mark_phone_added p) m)
              else if inv_type result = Some ''UserPrivacyRestrictedError''
              then (if truthy invite_link \<and> pe_send_invite_link pe
                    then (''invited'', set_phones (mark_phone_invited p) m)
                    else (''Privacy restricted - invite failed'',
                          set_phones (mark_phone_failed p) m))
              else if inv_type result = Some ''UserNotMutualContactError''
              then (if truthy invite_link \<and> pe_send_invite_link pe
                    then (''invited'', set_phones (mark_phone_invited p) m)
                    else (''Not mutual contact - invite failed'',
                          set_phones (mark_phone_failed p)
                            (m\<lparr>blacklist := add_to_blacklist p (blacklist m)\<rparr>)))
              else handle_add_error pe invite_link p
                     (case inv_error result of
                        Some e \<Rightarrow> e
                      | None \<Rightarrow> ''Unknown error during invite'') m))"

text \<open>
  \<^verbatim>\<open>_process_phone_number\<close>. The contact is imported when the phone is not among the
  active contacts; the group is resolved by the session's client before the inner
  \<^verbatim>\<open>try\<close> is entered; the \<^verbatim>\<open>finally\<close> of the inner \<^verbatim>\<open>try\<close> deletes the contact; the
  outer handler marks the phone failed and returns the text of the exception.
\<close>

definition process_phone_number ::
  "phone_env \<Rightarrow> string \<Rightarrow> string \<Rightarrow> string option \<Rightarrow> manager \<Rightarrow> string \<times> manager" where
  "process_phone_number pe session_name p invite_link m =
     (let phone_in_contact_list = (p \<in> pe_active_contacts pe);
          contact_added = (\<not> phone_in_contact_list \<and> pe_import_contacts pe = Done);
          m1 = (if contact_added
                then m\<lparr>contacts := (contacts m)(session_name := insert p (contacts m session_name))\<rparr>
                else m)
      in case pe_resolve_group pe of
           Fails e \<Rightarrow> (e, set_phones (mark_phone_failed p) m1)
         | Done \<Rightarrow>
             (case try_add pe invite_link p m1 of
                (success, m2) \<Rightarrow>
                  (success,
                   if contact_added \<and> \<not> phone_in_contact_list \<and> pe_delete_contact pe = Done
                   then m2\<lparr>contacts :=
                           (contacts m2)(session_name := contacts m2 session_name - {p})\<rparr>
                   else m2)))"

subsection \<open>\<^verbatim>\<open>add_users_to_group\<close>\<close>

text \<open>
  What the run meets outside the program: whether the check of a loaded session
  passes (connected and authorized, nothing raised), the two results of
  \<^verbatim>\<open>get_admin_session_client\<close>, the resolution of the target group by the admin
  client, the invite link, the answers per session and phone, and the day.
  \<^verbatim>\<open>_ensure_sessions_in_group\<close> changes none of the modelled state.

  Two more answers belong to the loop over the phones. \<open>sleep_answer seconds\<close> is what
  \<^verbatim>\<open>await asyncio.sleep(seconds)\<close> does: it returns, or it raises an \<^verbatim>\<open>Exception\<close>
  (an \<^verbatim>\<open>OverflowError\<close> for a delay that no float holds). \<open>removed_meanwhile phone\<close>
  are the names that other tasks of the event loop (\<^verbatim>\<open>_periodic_health_check\<close>,
  \<^verbatim>\<open>remove_session\<close>) have deleted from \<^verbatim>\<open>self.sessions\<close> while the run was
  suspended, by the time the session for \<open>phone\<close> is looked up; of what those tasks do,
  the run reads nothing else.
\<close>

record run_env =
  load_answers :: "string \<Rightarrow> load_answer"
  session_ready :: "string \<Rightarrow> bool"
  admin_client_for_quota :: "client option"
  admin_client_for_group :: "client option"
  resolve_target_group :: call
  created_invite_link :: "string option"
  phone_answers :: "string \<Rightarrow> string \<Rightarrow> phone_env"
  run_today :: string
  sleep_answer :: "int \<Rightarrow> call"
  removed_meanwhile :: "string \<Rightarrow> string list"

text \<open>The loop over \<^verbatim>\<open>self.sessions\<close> that collects sessions with remaining quota.\<close>

definition user_candidates :: "run_env \<Rightarrow> int \<Rightarrow> manager \<Rightarrow> (string \<times> int) list" where
  "user_candidates env max_daily m =
     map (\<lambda>name. (name, get_session_daily_limit (limits m) name max_daily (run_today env)))
       (filter (\<lambda>name. session_ready env name
                  \<and> 0 < get_session_daily_limit (limits m) name max_daily (run_today env))
          (map fst (sessions m)))"

text \<open>The admin session joins the candidates when the toggle is set.\<close>

definition admin_candidate ::
  "run_env \<Rightarrow> int \<Rightarrow> manager \<Rightarrow> ((string \<times> int) \<times> client) option" where
  "admin_candidate env max_daily m =
     (if use_admin_as_user m
      then (case admin_client_for_quota env of
              None \<Rightarrow> None
            | Some admin_client \<Rightarrow>
                (case get_admin_session (db_admin_session m) of
                   None \<Rightarrow> None
                 | Some row \<Rightarrow>
                     (let remaining = get_session_daily_limit (limits m)
                                        (adm_session_name row) max_daily (run_today env)
                      in if 0 < remaining
                         then Some ((adm_session_name row, remaining), admin_client)
                         else None)))
      else None)"

text \<open>The state of the loop over the pending phones.\<close>

record loop_state =
  ls_results :: run_counts
  ls_session_index :: nat
  ls_available :: "(string \<times> int) list"
  ls_assigned :: "(string \<times> string) list"
  ls_manager :: manager

text \<open>
  The search \<^verbatim>\<open>for j in range(len(available_sessions))\<close>: the first index, counted
  round-robin from \<open>session_index\<close>, whose session has quota left.
\<close>

definition find_session :: "nat \<Rightarrow> (string \<times> int) list \<Rightarrow> nat option" where
  "find_session session_index available =
     find (\<lambda>session_idx. 0 < snd (available ! session_idx))
       (map (\<lambda>j. (session_index + j) mod length available) [0 ..< length available])"

definition processed_count :: "run_counts \<Rightarrow> int" where
  "processed_count r = n_added r + n_failed r + n_invited r"

text \<open>The chain \<^verbatim>\<open>if success == "added" ... else\<close> after a phone was processed.\<close>

definition record_outcome ::
  "string \<Rightarrow> string \<Rightarrow> nat \<Rightarrow> string \<Rightarrow> string \<Rightarrow> loop_state \<Rightarrow> loop_state" where
  "record_outcome day p session_idx session_name success ls =
     (let r = ls_results ls; m = ls_manager ls
      in if success = ''added''
         then ls\<lparr>ls_results := r\<lparr>n_added := n_added r + 1\<rparr>,
                 ls_manager :=
                   set_phones (mark_phone_added p)
                     (m\<lparr>limits := increment_session_limit (limits m) session_name day\<rparr>),
                 ls_available :=
                   (ls_available ls)
                     [session_idx := (session_name, snd (ls_available ls ! session_idx) - 1)]\<rparr>
         else if success = ''already_member''
         then ls\<lparr>ls_results := r\<lparr>n_added := n_added r + 1\<rparr>,
                 ls_manager := set_phones (mark_phone_added p) m\<rparr>
         else if success = ''invited''
         then ls\<lparr>ls_results := r\<lparr>n_invited := n_invited r + 1\<rparr>,
                 ls_manager := set_phones (mark_phone_invited p) m\<rparr>
         else ls\<lparr>ls_results := r\<lparr>n_failed := n_failed r + 1,
                                  run_errors := run_errors r @ [p @ '': '' @ success]\<rparr>\<rparr>)"

text \<open>
  \<^verbatim>\<open>self.sessions[session_name]\<close> raises \<^verbatim>\<open>KeyError\<close> for a name that is not in the
  registry; its text is the \<^verbatim>\<open>repr\<close> of the name (quoted as below for a name without
  quotes, backslashes and unprintable characters, as the names of sessions are).
\<close>

definition key_error :: "string \<Rightarrow> string" where
  "key_error session_name = CHR 0x27 # session_name @ [CHR 0x27]"

definition forget_sessions :: "string list \<Rightarrow> manager \<Rightarrow> manager" where
  "forget_sessions names m =
     m\<lparr>sessions := filter (\<lambda>entry. fst entry \<notin> set names) (sessions m)\<rparr>"

text \<open>
  The loop over one batch, inside the \<^verbatim>\<open>try\<close> of the method. A row without a phone
  counts as failed; when no session has quota left the skipped count is set and the loop
  over the batch is left. The loop returns the state it reached together with \<open>Done\<close>,
  or with \<open>Fails e\<close> when an exception with text \<open>e\<close> left it: the \<^verbatim>\<open>KeyError\<close> of the
  registry lookup, raised before \<open>session_index\<close> is assigned, or an exception of
  \<^verbatim>\<open>await asyncio.sleep(delay)\<close>, raised after the phone was processed and recorded.
\<close>

fun process_batch ::
  "run_env \<Rightarrow> int \<Rightarrow> string option \<Rightarrow> phone_row list \<Rightarrow> loop_state \<Rightarrow> call \<times> loop_state" where
  "process_batch env delay invite_link [] ls = (Done, ls)"
| "process_batch env delay invite_link (phone_data # batch) ls =
     (if row_phone phone_data = []
      then process_batch env delay invite_link batch
             (ls\<lparr>ls_results := (ls_results ls)\<lparr>n_failed := n_failed (ls_results ls) + 1\<rparr>\<rparr>)
      else
        let registry = forget_sessions (removed_meanwhile env (row_phone phone_data))
                         (ls_manager ls)
        in case find_session (ls_session_index ls) (ls_available ls) of
             None \<Rightarrow>
               (Done,
                ls\<lparr>ls_results :=
                     (ls_results ls)\<lparr>n_skipped :=
                       n_total (ls_results ls) - processed_count (ls_results ls)\<rparr>,
                   ls_manager := registry\<rparr>)
           | Some session_idx \<Rightarrow>
               (let session_name = fst (ls_available ls ! session_idx)
                in case map_of (sessions registry) session_name of
                     None \<Rightarrow> (Fails (key_error session_name), ls\<lparr>ls_manager := registry\<rparr>)
                   | Some client \<Rightarrow>
                       (let ls1 = ls\<lparr>ls_session_index := session_idx + 1,
                                     ls_assigned :=
                                       ls_assigned ls @ [(row_phone phone_data, session_name)]\<rparr>
                        in case process_phone_number
                                  (phone_answers env session_name (row_phone phone_data))
                                  session_name (row_phone phone_data) invite_link registry of
                             (success, m') \<Rightarrow>
                               (let ls2 = record_outcome (run_today env) (row_phone phone_data)
                                            session_idx session_name success
                                            (ls1\<lparr>ls_manager := m'\<rparr>)
                                in case sleep_answer env delay of
                                     Fails e \<Rightarrow> (Fails e, ls2)
                                   | Done \<Rightarrow>
                                       process_batch env delay invite_link batch ls2))))"

text \<open>
  \<^verbatim>\<open>range(0, len(pending_phones), batch_size)\<close> for a positive step (the batch
  size), and the loop
  \<^verbatim>\<open>for i in range(...)\<close> with \<^verbatim>\<open>batch = pending_phones[i:i + batch_size]\<close>. After a
  batch that is not the last one the loop sleeps \<^verbatim>\<open>delay * 2\<close>; an exception of that
  sleep leaves the loop as well.
\<close>

definition batch_starts :: "nat \<Rightarrow> nat \<Rightarrow> nat list" where
  "batch_starts step len = map (\<lambda>k. k * step) [0 ..< (len + step - 1) div step]"

fun process_batches ::
  "run_env \<Rightarrow> int \<Rightarrow> string option \<Rightarrow> nat \<Rightarrow> phone_row list \<Rightarrow> nat list \<Rightarrow> loop_state
     \<Rightarrow> call \<times> loop_state" where
  "process_batches env delay invite_link step pending_phones [] ls = (Done, ls)"
| "process_batches env delay invite_link step pending_phones (i # starts) ls =
     (case process_batch env delay invite_link
             (take step (drop i pending_phones)) ls of
        (Fails e, ls1) \<Rightarrow> (Fails e, ls1)
      | (Done, ls1) \<Rightarrow>
          (if i + step < length pending_phones
           then (case sleep_answer env (delay * 2) of
                   Fails e \<Rightarrow> (Fails e, ls1)
                 | Done \<Rightarrow>
                     process_batches env delay invite_link step pending_phones starts ls1)
           else process_batches env delay invite_link step pending_phones starts ls1))"

text \<open>\<^verbatim>\<open>str\<close> of an integer, for the numbers inside messages.\<close>

fun show_nat :: "nat \<Rightarrow> string" where
  "show_nat n =
     (if n < 10 then [char_of (48 + n)]
      else show_nat (n div 10) @ [char_of (48 + n mod 10)])"

declare show_nat.simps [simp del]

definition show_int :: "int \<Rightarrow> string" where
  "show_int i = (if i < 0 then CHR ''-'' # show_nat (nat (- i)) else show_nat (nat i))"

definition failure :: "string \<Rightarrow> run_result" where
  "failure msg =
     \<lparr>res_success = False, res_message = Some msg, res_results = None, res_error = None\<rparr>"

text \<open>\<^verbatim>\<open>if invite_message: self.db.set_invite_message(invite_message)\<close>\<close>

definition store_invite_message :: "engine_args \<Rightarrow> manager \<Rightarrow> manager" where
  "store_invite_message args m =
     (if truthy (arg_invite_message args)
      then m\<lparr>stored_invite_message := arg_invite_message args\<rparr> else m)"

text \<open>The candidates and the manager after sessions were loaded and the admin joined.\<close>

definition prepare_sessions ::
  "run_env \<Rightarrow> engine_args \<Rightarrow> manager \<Rightarrow> (string \<times> int) list \<times> manager" where
  "prepare_sessions env args m =
     (let m1 = store_invite_message args m;
          m2 = load_all_sessions (load_answers env) m1;
          max_daily = arg_max_daily_per_session args
      in case admin_candidate env max_daily m2 of
           None \<Rightarrow> (user_candidates env max_daily m2, m2)
         | Some (entry, admin_client) \<Rightarrow>
             (user_candidates env max_daily m2 @ [entry],
              m2\<lparr>sessions := dict_set (fst entry) admin_client (sessions m2)\<rparr>))"

definition available_sessions :: "run_env \<Rightarrow> engine_args \<Rightarrow> manager \<Rightarrow> (string \<times> int) list" where
  "available_sessions env args m = fst (prepare_sessions env args m)"

definition no_sessions_message :: "int \<Rightarrow> manager \<Rightarrow> string" where
  "no_sessions_message max_daily m =
     (if sessions m = []
      then ''No user sessions available. Users need to scan QR codes first.''
      else ''All '' @ show_nat (length (sessions m))
           @ '' sessions have reached their daily limit of '' @ show_int max_daily
           @ '' users.'')"

definition no_admin_message :: "manager \<Rightarrow> string" where
  "no_admin_message m =
     (case get_admin_session (db_admin_session m) of
        None \<Rightarrow>
          (if use_user_as_admin m
           then (if sessions m = []
                 then ''User-as-admin enabled but no user sessions available.''
                 else ''Admin session connection failed. Please check session status.'')
           else ''Admin session required. Please create an admin session first.'')
      | Some row \<Rightarrow>
          (if use_user_as_admin m
           then (if sessions m = []
                 then ''User-as-admin enabled but no user sessions available.''
                 else ''Admin session connection failed. Please check session status.'')
           else ''Admin session exists but failed to connect. Session: ''
                @ adm_session_name row))"

text \<open>
  The method. It returns the result dictionary, the list of (phone, session) pairs in
  the order in which phones were handed to sessions, and the manager afterwards. A step of
  zero makes \<^verbatim>\<open>range\<close> raise inside the \<^verbatim>\<open>try\<close>; a negative step gives no batch.
  The handler of the \<^verbatim>\<open>try\<close> answers every exception, that of the group resolution
  like one that left the loop over the phones, with an unsuccessful result; what the
  loop had written by then stays written.
\<close>

definition add_users_to_group ::
  "run_env \<Rightarrow> engine_args \<Rightarrow> manager \<Rightarrow> run_result \<times> (string \<times> string) list \<times> manager" where
  "add_users_to_group env args m =
     (let pending_phones = get_pending_phone_numbers (phone_numbers m);
          m0 = store_invite_message args m
      in if pending_phones = [] then (failure ''No pending phone numbers'', [], m0)
         else
           case prepare_sessions env args m of
             (available, m2) \<Rightarrow>
               (if available = []
                then (failure (no_sessions_message (arg_max_daily_per_session args) m2), [], m2)
                else
                  case admin_client_for_group env of
                    None \<Rightarrow> (failure (no_admin_message m2), [], m2)
                  | Some admin_client \<Rightarrow>
                      (case resolve_target_group env of
                         Fails e \<Rightarrow> (failure (''Group access failed: '' @ e), [], m2)
                       | Done \<Rightarrow>
                           (if arg_batch_size args = 0
                            then (failure (''Group access failed: ''
                                           @ ''range() arg 3 must not be zero''), [], m2)
                            else
                              let start = \<lparr>ls_results =
                                             \<lparr>n_added = 0, n_failed = 0, n_invited = 0,
                                              n_total = int (length pending_phones),
                                              run_errors = [], n_skipped = 0\<rparr>,
                                           ls_session_index = 0, ls_available = available,
                                           ls_assigned = [], ls_manager = m2\<rparr>;
                                  step = nat (arg_batch_size args)
                              in case (if arg_batch_size args < 0 then (Done, start)
                                       else process_batches env (arg_delay args)
                                              (created_invite_link env) step pending_phones
                                              (batch_starts step (length pending_phones))
                                              start) of
                                   (Fails e, final) \<Rightarrow>
                                     (failure (''Group access failed: '' @ e),
                                      ls_assigned final, ls_manager final)
                                 | (Done, final) \<Rightarrow>
                                     (\<lparr>res_success = True, res_message = None,
                                       res_results = Some (ls_results final), res_error = None\<rparr>,
                                      ls_assigned final, ls_manager final)))))"

subsection \<open>QR login: \<^verbatim>\<open>_wait_for_scan\<close> and what it calls\<close>

datatype wait_answer = Scanned | Timed_out | Wait_raises string

datatype auth_answer = Is_authorized | Not_authorized | Auth_raises string

datatype me_answer = Me int | No_user | Me_raises string

text \<open>
  What the network answers during one login: how \<^verbatim>\<open>asyncio.wait_for(qr_login.wait(),
  timeout=300)\<close> ends, what \<^verbatim>\<open>is_user_authorized\<close> and \<^verbatim>\<open>get_me\<close> answer for a
  client, whether the copied session holds an authorization key, and whether
  \<^verbatim>\<open>disconnect()\<close> on a client raises.
\<close>

record qr_env =
  scan_wait :: wait_answer
  is_user_authorized :: "client \<Rightarrow> auth_answer"
  get_me :: "client \<Rightarrow> me_answer"
  auth_key_present :: bool
  disconnect_raises :: "client \<Rightarrow> bool"

text \<open>\<^verbatim>\<open>await client.disconnect()\<close>: \<open>None\<close> when it raises.\<close>

definition disconnect :: "qr_env \<Rightarrow> client \<Rightarrow> manager \<Rightarrow> manager option" where
  "disconnect env c m =
     (if disconnect_raises env c then None
      else Some (m\<lparr>disconnected := disconnected m @ [c]\<rparr>))"

text \<open>The guarded form \<^verbatim>\<open>try: await client.disconnect() except Exception: pass\<close>.\<close>

definition disconnect_quietly :: "qr_env \<Rightarrow> client \<Rightarrow> manager \<Rightarrow> manager" where
  "disconnect_quietly env c m = (case disconnect env c m of None \<Rightarrow> m | Some m' \<Rightarrow> m')"

definition set_qr_status :: "string \<Rightarrow> string \<Rightarrow> manager \<Rightarrow> manager" where
  "set_qr_status session_name st m =
     (case qr_sessions m session_name of
        None \<Rightarrow> m
      | Some a \<Rightarrow> m\<lparr>qr_sessions := (qr_sessions m)(session_name \<mapsto> a\<lparr>qr_status := st\<rparr>)\<rparr>)"

text \<open>
  \<^verbatim>\<open>_cleanup_invalid_session\<close>: the whole body is one \<^verbatim>\<open>try\<close> whose handler only
  logs, so when \<^verbatim>\<open>disconnect()\<close> raises, nothing after it runs.
\<close>

definition cleanup_invalid_session ::
  "qr_env \<Rightarrow> string \<Rightarrow> client \<Rightarrow> string \<Rightarrow> manager \<Rightarrow> manager" where
  "cleanup_invalid_session env session_name c st m =
     (case disconnect env c m of
        None \<Rightarrow> m
      | Some m1 \<Rightarrow>
          set_qr_status session_name st
            (m1\<lparr>session_files :=
                  (session_files m1)((Users, session_name) := None,
                                     (Admins, session_name) := None)\<rparr>))"

text \<open>
  \<^verbatim>\<open>_persist_authorized_session\<close>: the credential file is written, then the row and
  the dictionaries; the second component is the text of an exception that leaves the
  method.
\<close>

definition persist_authorized_session ::
  "qr_env \<Rightarrow> string \<Rightarrow> client \<Rightarrow> int \<Rightarrow> bool \<Rightarrow> manager \<Rightarrow> manager \<times> string option" where
  "persist_authorized_session env session_name c me_id is_admin m =
     (let part = (if is_admin then Admins else Users);
          m1 = m\<lparr>session_files := (session_files m)((part, session_name) \<mapsto> me_id)\<rparr>
      in if \<not> auth_key_present env
         then (m1, Some ''Failed to copy session data properly'')
         else
           let m2 = (if is_admin
                     then set_qr_status session_name ''scanned''
                            (m1\<lparr>db_admin_session :=
                                   save_admin_session session_name me_id (db_admin_session m1),
                                 admin_sessions :=
                                   dict_set session_name (File_client Admins session_name)
                                     (admin_sessions m1)\<rparr>)
                     else set_qr_status session_name ''scanned''
                            (m1\<lparr>db_sessions :=
                                   create_session session_name ''active'' (db_sessions m1),
                                 sessions :=
                                   dict_set session_name (File_client Users session_name)
                                     (sessions m1),
                                 user_sessions := (user_sessions m1)(me_id \<mapsto> session_name)\<rparr>))
           in (disconnect_quietly env c m2, None))"

definition duplicate_message :: string where
  "duplicate_message =
     ''You have already scanned the QR code and created a valid session. Thank you for your support! ''
       @ [CHR 0xF0, CHR 0x9F, CHR 0x8E, CHR 0x89]"

text \<open>
  \<^verbatim>\<open>_save_valid_session\<close>: the duplicate check reads \<^verbatim>\<open>self.user_sessions\<close>; every
  exception ends in \<^verbatim>\<open>_cleanup_invalid_session(..., "error")\<close>.
\<close>

definition save_valid_session :: "qr_env \<Rightarrow> string \<Rightarrow> client \<Rightarrow> manager \<Rightarrow> manager" where
  "save_valid_session env session_name c m =
     (case get_me env c of
        Me_raises e \<Rightarrow> cleanup_invalid_session env session_name c ''error'' m
      | No_user \<Rightarrow> cleanup_invalid_session env session_name c ''error'' m
      | Me me_id \<Rightarrow>
          (if truthy (user_sessions m me_id)
           then
             (let m1 = (case qr_sessions m session_name of
                          None \<Rightarrow> m
                        | Some a \<Rightarrow>
                            m\<lparr>qr_sessions := (qr_sessions m)(session_name \<mapsto>
                                 a\<lparr>qr_status := ''duplicate'',
                                   qr_message := Some duplicate_message\<rparr>)\<rparr>)
              in case disconnect env c m1 of
                   Some m2 \<Rightarrow> m2
                 | None \<Rightarrow> cleanup_invalid_session env session_name c ''error'' m1)
           else
             (case persist_authorized_session env session_name c me_id False m of
                (m2, Some e) \<Rightarrow> cleanup_invalid_session env session_name c ''error'' m2
              | (m2, None) \<Rightarrow>
                  disconnect_quietly env (File_client Users session_name) m2)))"

text \<open>The handler \<^verbatim>\<open>except Exception as e\<close> of \<^verbatim>\<open>_wait_for_scan\<close>.\<close>

definition scan_failed :: "qr_env \<Rightarrow> string \<Rightarrow> client \<Rightarrow> string \<Rightarrow> manager \<Rightarrow> manager" where
  "scan_failed env session_name c e m =
     (if contains ''Two-steps verification'' e \<or> contains ''password is required'' e
      then (case qr_sessions m session_name of
              None \<Rightarrow> m
            | Some a \<Rightarrow>
                m\<lparr>qr_sessions := (qr_sessions m)(session_name \<mapsto>
                     a\<lparr>qr_status := ''password_required'', qr_client := Some c\<rparr>)\<rparr>)
      else cleanup_invalid_session env session_name c ''error'' m)"

definition wait_for_scan :: "qr_env \<Rightarrow> string \<Rightarrow> client \<Rightarrow> manager \<Rightarrow> manager" where
  "wait_for_scan env session_name c m =
     (case scan_wait env of
        Timed_out \<Rightarrow> cleanup_invalid_session env session_name c ''expired'' m
      | Wait_raises e \<Rightarrow> scan_failed env session_name c e m
      | Scanned \<Rightarrow>
          (case is_user_authorized env c of
             Is_authorized \<Rightarrow> save_valid_session env session_name c m
           | Not_authorized \<Rightarrow> cleanup_invalid_session env session_name c ''error'' m
           | Auth_raises e \<Rightarrow> scan_failed env session_name c e m))"

text \<open>
  A restart of the process: \<^verbatim>\<open>SessionManager.__init__\<close> starts with empty
  dictionaries over the same store and files.
\<close>

text \<open>
  \<^verbatim>\<open>create_auto_qr_session\<close> and \<^verbatim>\<open>_generate_qr_fast\<close> up to the start of the waiter
  task: the attempt is recorded and set to \<^verbatim>\<open>waiting\<close>.
\<close>

definition begin_qr_attempt :: "string \<Rightarrow> manager \<Rightarrow> manager" where
  "begin_qr_attempt session_name m =
     m\<lparr>qr_sessions := (qr_sessions m)(session_name \<mapsto>
          \<lparr>qr_status = ''waiting'', qr_message = None, qr_client = None\<rparr>)\<rparr>"

definition restart :: "manager \<Rightarrow> manager" where
  "restart m =
     m\<lparr>sessions := [], admin_sessions := [], qr_sessions := (\<lambda>name. None),
       user_sessions := (\<lambda>uid. None)\<rparr>"

text \<open>
  The names of the persisted user sessions of an identity: rows of table
  \<^verbatim>\<open>sessions\<close> whose credential file holds the key of that identity.
\<close>

definition persisted_sessions_of :: "manager \<Rightarrow> int \<Rightarrow> string list" where
  "persisted_sessions_of m uid =
     map sess_name
       (filter (\<lambda>r. session_files m (Users, sess_name r) = Some uid) (db_sessions m))"

section \<open>Auxiliary notions for the proofs\<close>

definition processed_statuses :: "string set" where
  "processed_statuses = {''added'', ''invited'', ''failed''}"

text \<open>
  \<open>settled A t t'\<close>: table \<open>t'\<close> is table \<open>t\<close> except that the rows whose phone is in
  \<open>A\<close> carry a processed status. \<open>loop_invariant t P ls\<close>: the table of loop state
  \<open>ls\<close> is the table \<open>t\<close> settled for the phones handed to a session so far, and these
  are among the phones \<open>P\<close>.
\<close>

definition settled :: "string set \<Rightarrow> phone_row list \<Rightarrow> phone_row list \<Rightarrow> bool" where
  "settled A t t' =
     list_all2 (\<lambda>r r'. if row_phone r \<in> A
                        then row_phone r' = row_phone r \<and> row_status r' \<in> processed_statuses
                        else r' = r) t t'"

definition loop_invariant :: "phone_row list \<Rightarrow> string set \<Rightarrow> loop_state \<Rightarrow> bool" where
  "loop_invariant t P ls =
     (settled (fst ` set (ls_assigned ls)) t (phone_numbers (ls_manager ls))
      \<and> fst ` set (ls_assigned ls) \<subseteq> P)"

section \<open>Concrete scenarios\<close>

definition example_settings :: settings where
  "example_settings =
     \<lparr>auto_add_enabled = True, target_group_id = Some (Group_int 5),
      daily_start_time = None, delay_between_adds = Some 10, batch_size = Some 3,
      max_users_per_session = Some 50, invite_message = None\<rparr>"

definition example_store :: "iso_text option \<Rightarrow> supervisor_store" where
  "example_store last_run =
     \<lparr>auto_add_running = False, auto_add_last_run = last_run,
      auto_add_last_result = None, auto_add_forced_wakeup = None\<rparr>"

definition example_supervisor :: supervisor where
  "example_supervisor =
     \<lparr>status_running = False, status_next_run = None, wake_event = False,
      store = example_store None\<rparr>"

definition example_cycle :: "int \<Rightarrow> cycle_env" where
  "example_cycle finished =
     \<lparr>refresh_active_sessions = Returns (),
      add_users_to_group_call =
        (\<lambda>a. Returns \<lparr>res_success = False, res_message = Some ''No pending phone numbers'',
                       res_results = None, res_error = None\<rparr>),
      refresh_target_group_member_count = Returns (),
      finish_time = finished\<rparr>"

definition example_tick :: "int \<Rightarrow> tick" where
  "example_tick now_utc =
     \<lparr>tick_now = now_utc, tick_settings = example_settings, tick_pending = 3,
      tick_cycle = example_cycle (now_utc + minute_us)\<rparr>"

definition all_added :: phone_env where
  "all_added =
     \<lparr>pe_active_contacts = {}, pe_import_contacts = Done, pe_resolve_group = Done,
      pe_group_kind = Megagroup, pe_resolve_user = Done, pe_invite_request = Request_ok,
      pe_send_invite_link = True, pe_delete_contact = Done\<rparr>"

definition example_env :: run_env where
  "example_env =
     \<lparr>load_answers = (\<lambda>name. Authorized), session_ready = (\<lambda>name. True),
      admin_client_for_quota = None,
      admin_client_for_group = Some (File_client Admins ''Admin_1''),
      resolve_target_group = Done, created_invite_link = Some ''https://t.me/+abc'',
      phone_answers = (\<lambda>session_name p. all_added), run_today = ''2024-05-01'',
      sleep_answer = (\<lambda>seconds. Done), removed_meanwhile = (\<lambda>p. [])\<rparr>"

definition example_args :: engine_args where
  "example_args =
     \<lparr>arg_group_id = Group_int 5, arg_delay = 0, arg_batch_size = 3,
      arg_max_daily_per_session = 5, arg_invite_message = None\<rparr>"

definition example_limits :: session_limits where
  "example_limits =
     [(''S1'', ''2024-05-01'') \<mapsto> 3, (''S2'', ''2024-05-01'') \<mapsto> 5,
      (''S3'', ''2024-05-01'') \<mapsto> 4]"

definition pending_row :: "string \<Rightarrow> phone_row" where
  "pending_row p = \<lparr>row_phone = p, row_status = ''pending''\<rparr>"

definition example_manager :: manager where
  "example_manager =
     \<lparr>sessions = [(''S1'', File_client Users ''S1''), (''S2'', File_client Users ''S2''),
                  (''S3'', File_client Users ''S3'')],
      admin_sessions = [], qr_sessions = (\<lambda>name. None), user_sessions = (\<lambda>uid. None),
      db_sessions = [\<lparr>sess_name = ''S1'', sess_status = ''active''\<rparr>,
                     \<lparr>sess_name = ''S2'', sess_status = ''active''\<rparr>,
                     \<lparr>sess_name = ''S3'', sess_status = ''active''\<rparr>],
      db_admin_session = [\<lparr>adm_session_name = ''Admin_1'', adm_user_id = 99\<rparr>],
      phone_numbers = [pending_row ''+1001'', pending_row ''+1002'', pending_row ''+1003'',
                       pending_row ''+1004''],
      limits = example_limits, blacklist = [], use_admin_as_user = False,
      use_user_as_admin = False, stored_invite_message = None,
      session_files = (\<lambda>f. None), disconnected = [], contacts = (\<lambda>name. {})\<rparr>"

text \<open>The session's client cannot resolve the group; everything else succeeds.\<close>

definition group_unresolved :: phone_env where
  "group_unresolved = all_added\<lparr>pe_resolve_group := Fails ''Could not find the input entity''\<rparr>"

text \<open>
  Every target is a participant of the group already: the invite request raises
  \<^verbatim>\<open>UserAlreadyParticipantError\<close>; everything else succeeds.
\<close>

definition already_member :: phone_env where
  "already_member = all_added\<lparr>pe_invite_request := Already_participant\<rparr>"

definition members_env :: run_env where
  "members_env = example_env\<lparr>phone_answers := (\<lambda>session_name p. already_member)\<rparr>"

text \<open>
  The configured delay is an integer that no float holds: \<^verbatim>\<open>asyncio.sleep\<close> raises
  \<^verbatim>\<open>OverflowError\<close> when it adds the delay to the clock of the event loop.
\<close>

definition huge_delay :: int where
  "huge_delay = 2 ^ 1024"

definition overflow_args :: engine_args where
  "overflow_args = example_args\<lparr>arg_delay := huge_delay\<rparr>"

definition overflow_env :: run_env where
  "overflow_env =
     example_env\<lparr>sleep_answer :=
       (\<lambda>seconds. if seconds < huge_delay then Done
                   else Fails ''int too large to convert to float'')\<rparr>"

definition counts :: "int \<Rightarrow> int \<Rightarrow> run_counts" where
  "counts a s =
     \<lparr>n_added = a, n_failed = 0, n_invited = 0, n_total = 4, run_errors = [],
      n_skipped = s\<rparr>"

definition empty_manager :: manager where
  "empty_manager =
     \<lparr>sessions = [], admin_sessions = [], qr_sessions = (\<lambda>name. None),
      user_sessions = (\<lambda>uid. None), db_sessions = [], db_admin_session = [],
      phone_numbers = [], limits = (\<lambda>k. None), blacklist = [], use_admin_as_user = False,
      use_user_as_admin = False, stored_invite_message = None,
      session_files = (\<lambda>f. None), disconnected = [], contacts = (\<lambda>name. {})\<rparr>"

text \<open>A login that is scanned by identity 7 and meets no failure.\<close>

definition scanned_by_7 :: qr_env where
  "scanned_by_7 =
     \<lparr>scan_wait = Scanned, is_user_authorized = (\<lambda>c. Is_authorized), get_me = (\<lambda>c. Me 7),
      auth_key_present = True, disconnect_raises = (\<lambda>c. False)\<rparr>"

text \<open>
  Identity 7 logs in as \<^verbatim>\<open>Session_A\<close>; later the process restarts; later still the
  sessions of the store are loaded.
\<close>

definition after_first_login :: manager where
  "after_first_login =
     wait_for_scan scanned_by_7 ''Session_A'' (Memory_client 0)
       (begin_qr_attempt ''Session_A'' empty_manager)"

definition after_restart :: manager where
  "after_restart = restart after_first_login"

definition after_reload :: manager where
  "after_reload = load_all_sessions (\<lambda>name. Authorized) after_restart"

text \<open>The second login of identity 7, as attempt \<^verbatim>\<open>Session_B\<close>.\<close>

definition second_login :: "manager \<Rightarrow> manager" where
  "second_login m =
     wait_for_scan scanned_by_7 ''Session_B'' (Memory_client 1)
       (begin_qr_attempt ''Session_B'' m)"

text \<open>A login whose scan never arrives and whose client raises on disconnect.\<close>

definition never_scanned :: qr_env where
  "never_scanned =
     \<lparr>scan_wait = Timed_out, is_user_authorized = (\<lambda>c. Not_authorized),
      get_me = (\<lambda>c. No_user), auth_key_present = False, disconnect_raises = (\<lambda>c. True)\<rparr>"

section \<open>Properties of the quota ledger\<close>

lemma handle_add_error_limits:
  "limits (snd (handle_add_error pe invite_link p e m)) = limits m"
  by (simp add: handle_add_error_def set_phones_def Let_def)

lemma try_add_limits: "limits (snd (try_add pe invite_link p m)) = limits m"
  by (simp add: try_add_def set_phones_def Let_def handle_add_error_limits split: call.splits)

lemma process_phone_number_limits:
  "limits (snd (process_phone_number pe session_name p invite_link m)) = limits m"
  by (simp add: process_phone_number_def set_phones_def Let_def case_prod_beta try_add_limits
      split: call.splits)

text \<open>
  The ledger itself: for every session and every day the remaining capacity reported by
  \<^verbatim>\<open>get_session_daily_limit\<close> is the cap minus the stored count, before an increment
  and after it; \<^verbatim>\<open>increment_session_limit\<close> raises the count of its session on the
  current day by exactly one and leaves the count of every other session and day as it
  was.
\<close>

lemma remaining_is_cap_minus_count:
  "get_session_daily_limit tbl s cap d = cap - users_added tbl s d"
  by (simp add: get_session_daily_limit_def users_added_def)

lemma increment_adds_one_to_its_count:
  "users_added (increment_session_limit tbl s today) s' d
     = (if (s', d) = (s, today) then users_added tbl s' d + 1 else users_added tbl s' d)"
  by (auto simp: users_added_def increment_session_limit_def update_limit_plus_one_def
      insert_or_ignore_limit_def split: option.splits)

text \<open>
  The call site: the engine increments the ledger when the outcome of a phone is the text
  \<^verbatim>\<open>added\<close>, and then only.
\<close>

lemma record_outcome_limits:
  "limits (ls_manager (record_outcome today p session_idx s success ls))
     = (if success = ''added''
        then increment_session_limit (limits (ls_manager ls)) s today
        else limits (ls_manager ls))"
  by (simp add: record_outcome_def set_phones_def Let_def)

section \<open>Properties of the supervisor\<close>

lemma parse_nine_o_clock: "parse_hour_minute ''09:00'' = Some (9, 0)"
  by (simp add: parse_hour_minute_def split_colon_once_def py_int_def strip_def
      is_space_def is_digit_def digit_value_def)

text \<open>
  Claim C4. With no forced wake-up pending: when the daily start time is
  \<^verbatim>\<open>"09:00"\<close> and the last run was at 09:05 of the current day, the next run is 09:00
  of the next day; when no daily start time is configured and the last run was two
  minutes before now, the next run is the last run plus five minutes.
\<close>

theorem calculate_next_run_schedule:
  assumes "\<not> truthy (auto_add_forced_wakeup db)"
  shows "(daily_start_time st = Some ''09:00'' \<and>
          auto_add_last_run db = Some (Iso_instant (combine (date_of now_utc) 9 5))
          \<longrightarrow> fst (calculate_next_run db st now_utc) = combine (date_of now_utc + 1) 9 0)
       \<and> (\<not> truthy (daily_start_time st) \<and>
          auto_add_last_run db = Some (Iso_instant (now_utc - 2 * minute_us))
          \<longrightarrow> fst (calculate_next_run db st now_utc) = (now_utc - 2 * minute_us) + 5 * minute_us)"
proof -
  have same_day: "date_of (combine (date_of now_utc) 9 5) = date_of now_utc"
    by (simp add: date_of_def combine_def day_us_def hour_us_def minute_us_def)
  have after_start: "combine (date_of now_utc) 9 0 \<le> combine (date_of now_utc) 9 5"
    by (simp add: combine_def minute_us_def)
  have tomorrow: "combine (date_of now_utc) 9 0 + day_us = combine (date_of now_utc + 1) 9 0"
    by (simp add: combine_def algebra_simps)
  show ?thesis
    using assms same_day after_start tomorrow
    by (auto simp: calculate_next_run_def parse_nine_o_clock truthy_def min_run_interval_def
        minute_us_def split: option.splits list.splits)
qed

theorem calculate_next_run_schedule_witness:
  "fst (calculate_next_run (example_store (Some (Iso_instant (combine 20000 9 5))))
          (example_settings\<lparr>daily_start_time := Some ''09:00''\<rparr>) (combine 20000 10 0))
     = combine 20001 9 0
   \<and> fst (calculate_next_run (example_store (Some (Iso_instant (combine 20000 9 58))))
          example_settings (combine 20000 10 0))
     = combine 20000 10 3"
proof -
  have day: "date_of (combine 20000 10 0) = 20000"
    by (simp add: date_of_def combine_def day_us_def hour_us_def minute_us_def)
  have before: "combine 20000 10 0 - 2 * minute_us = combine 20000 9 58"
    by (simp add: combine_def hour_us_def minute_us_def)
  have after: "combine 20000 9 58 + 5 * minute_us = combine 20000 10 3"
    by (simp add: combine_def hour_us_def minute_us_def)
  have free: "\<not> truthy (auto_add_forced_wakeup (example_store r))" for r
    by (simp add: example_store_def truthy_def)
  show ?thesis
    using calculate_next_run_schedule
        [OF free, of "example_settings\<lparr>daily_start_time := Some ''09:00''\<rparr>"
          "Some (Iso_instant (combine 20000 9 5))" "combine 20000 10 0"]
      calculate_next_run_schedule
        [OF free, of example_settings "Some (Iso_instant (combine 20000 9 58))"
          "combine 20000 10 0"]
    by (simp add: day before after example_store_def example_settings_def truthy_def)
qed

text \<open>
  Claim C7. Whatever the awaited calls of a cycle do (return, raise an exception that
  the handler catches, or raise one that leaves the method), after \<^verbatim>\<open>_execute_cycle\<close>
  the running flag of the supervisor and the stored running flag are false, and the
  status query reports \<open>running = False\<close>.
\<close>

theorem execute_cycle_clears_running:
  "status_running (fst (execute_cycle env target_group st s)) = False
   \<and> auto_add_running (store (fst (execute_cycle env target_group st s))) = False
   \<and> snap_running (status (fst (execute_cycle env target_group st s)) st') = False"
  by (simp add: execute_cycle_def status_def Let_def)

text \<open>
  Consequently a loop that starts with the flag cleared ends with the flag cleared,
  however many cycles it launched and however they ended.
\<close>

lemma run_loop_iteration_not_running:
  assumes "\<not> status_running s" and "run_loop_iteration tk s = (launched, s', escaped)"
  shows "\<not> status_running s'"
proof -
  have cycle: "\<not> status_running (fst (execute_cycle env g st x))" for env g st x
    by (simp add: execute_cycle_def Let_def)
  have launch: "\<not> status_running x'" if "execute_cycle env g st x = (x', e)" for env g st x x' e
    using cycle[of env g st x] that by simp
  show ?thesis
    using assms
    by (auto simp: run_loop_iteration_def Let_def split: if_splits option.splits prod.splits
        dest: launch)
qed

lemma run_loop_from_not_running:
  "\<not> status_running s \<Longrightarrow> \<not> status_running (snd (run_loop_from ticks s))"
proof (induction ticks arbitrary: s)
  case Nil
  then show ?case by simp
next
  case (Cons tk tks)
  obtain launched s' escaped where it: "run_loop_iteration tk s = (launched, s', escaped)"
    by (cases "run_loop_iteration tk s") auto
  from run_loop_iteration_not_running[OF Cons.prems it] have quiet: "\<not> status_running s'" .
  show ?case
  proof (cases escaped)
    case None
    then show ?thesis
      using it Cons.IH[OF quiet] by (cases "run_loop_from tks s'") (simp add: Let_def)
  next
    case (Some e)
    then show ?thesis using it quiet by (simp add: Let_def)
  qed
qed

lemma calculate_next_run_keeps_store:
  "\<not> truthy (auto_add_forced_wakeup db) \<Longrightarrow> snd (calculate_next_run db st now_utc) = db"
  by (simp add: calculate_next_run_def Let_def split: option.splits list.splits)

lemma calculate_next_run_interval:
  "\<not> truthy (auto_add_forced_wakeup db) \<Longrightarrow> \<not> truthy (daily_start_time st) \<Longrightarrow>
   auto_add_last_run db = Some (Iso_instant t0) \<Longrightarrow>
   fst (calculate_next_run db st now_utc)
     = (if now_utc < t0 + min_run_interval then t0 + min_run_interval else now_utc)"
  by (auto simp: calculate_next_run_def truthy_def Let_def split: option.splits list.splits)

lemma iteration_first_launch:
  assumes "\<not> truthy (auto_add_forced_wakeup (store s))"
      and "\<not> truthy (daily_start_time (tick_settings tk))"
      and "auto_add_last_run (store s) = Some (Iso_instant t0)"
      and "run_loop_iteration tk s = (launched, s', escaped)"
  shows "(launched = None \<and> store s' = store s \<and> escaped = None)
       \<or> (launched = Some (tick_now tk) \<and> t0 + min_run_interval \<le> tick_now tk)"
  using assms(4) calculate_next_run_keeps_store[OF assms(1)]
    calculate_next_run_interval[OF assms(1,2,3)]
  by (auto simp: run_loop_iteration_def Let_def split: if_splits option.splits prod.splits)

lemma run_loop_from_first_launch:
  "\<not> truthy (auto_add_forced_wakeup (store s)) \<Longrightarrow>
   list_all (\<lambda>tk. \<not> truthy (daily_start_time (tick_settings tk))) ticks \<Longrightarrow>
   auto_add_last_run (store s) = Some (Iso_instant t0) \<Longrightarrow>
   fst (run_loop_from ticks s) = t # ts \<Longrightarrow> t0 + min_run_interval \<le> t"
proof (induction ticks arbitrary: s)
  case Nil
  then show ?case by simp
next
  case (Cons tk tks)
  obtain launched s' escaped where it: "run_loop_iteration tk s = (launched, s', escaped)"
    by (cases "run_loop_iteration tk s") auto
  from Cons.prems have nd: "\<not> truthy (daily_start_time (tick_settings tk))"
    and rest: "list_all (\<lambda>tk. \<not> truthy (daily_start_time (tick_settings tk))) tks"
    by simp_all
  from iteration_first_launch[OF Cons.prems(1) nd Cons.prems(3) it]
  show ?case
  proof
    assume quiet: "launched = None \<and> store s' = store s \<and> escaped = None"
    then have "fst (run_loop_from tks s') = t # ts"
      using Cons.prems(4) it by (auto simp: Let_def split: prod.splits)
    moreover have "\<not> truthy (auto_add_forced_wakeup (store s'))"
      using quiet Cons.prems(1) by simp
    moreover have "auto_add_last_run (store s') = Some (Iso_instant t0)"
      using quiet Cons.prems(3) by simp
    ultimately show ?thesis using Cons.IH rest by blast
  next
    assume launch: "launched = Some (tick_now tk) \<and> t0 + min_run_interval \<le> tick_now tk"
    then have "t = tick_now tk"
      using Cons.prems(4) it by (auto simp: Let_def split: prod.splits option.splits)
    then show ?thesis using launch by simp
  qed
qed

text \<open>
  Claim C10. \<^verbatim>\<open>_run_loop\<close> stores the clock at start as the last run. If no forced
  wake-up is pending and no pass of the loop sees a daily start time, the first cycle
  the loop launches is launched at least five minutes after the loop started.
\<close>

theorem first_run_waits_five_minutes:
  assumes "\<not> truthy (auto_add_forced_wakeup (store s))"
      and "list_all (\<lambda>tk. \<not> truthy (daily_start_time (tick_settings tk))) ticks"
      and "fst (run_loop start_time ticks s) = t # ts"
  shows "start_time + min_run_interval \<le> t \<and> min_run_interval = 5 * minute_us"
proof -
  let ?s = "s\<lparr>store := (store s)\<lparr>auto_add_last_run := Some (Iso_instant start_time)\<rparr>\<rparr>"
  have "start_time + min_run_interval \<le> t"
    by (rule run_loop_from_first_launch[of ?s ticks start_time t ts])
       (use assms in \<open>simp_all add: run_loop_def\<close>)
  then show ?thesis by (simp add: min_run_interval_def)
qed

theorem first_run_waits_five_minutes_witness:
  "fst (run_loop 0 [example_tick minute_us, example_tick (6 * minute_us)] example_supervisor)
     = [6 * minute_us]
   \<and> 0 + min_run_interval \<le> 6 * minute_us"
proof -
  have run: "fst (run_loop 0 [example_tick minute_us, example_tick (6 * minute_us)]
               example_supervisor) = [6 * minute_us]"
    by (simp add: run_loop_def run_loop_iteration_def calculate_next_run_def
        execute_cycle_def cycle_body_def cycle_args_def example_tick_def example_settings_def
        example_supervisor_def example_store_def example_cycle_def truthy_def
        group_truthy_def min_run_interval_def minute_us_def Let_def)
  have free: "\<not> truthy (auto_add_forced_wakeup (store example_supervisor))"
    by (simp add: example_supervisor_def example_store_def truthy_def)
  have no_daily: "list_all (\<lambda>tk. \<not> truthy (daily_start_time (tick_settings tk)))
                    [example_tick minute_us, example_tick (6 * minute_us)]"
    by (simp add: example_tick_def example_settings_def truthy_def)
  show ?thesis
    using first_run_waits_five_minutes[OF free no_daily run] run by simp
qed

section \<open>Properties of the distribution engine\<close>

subsection \<open>What a run writes to the table of targets\<close>

lemma set_phone_status_twice:
  "set_phone_status st' p (set_phone_status st p t) = set_phone_status st' p t"
  by (induction t) (simp_all add: set_phone_status_def)

lemma settled_start: "settled {} t t"
  by (simp add: settled_def list_all2_same)

lemma settled_mark:
  assumes "settled A t0 t" and "st \<in> processed_statuses"
  shows "settled (insert p A) t0 (set_phone_status st p t)"
  using assms
  by (auto simp: settled_def set_phone_status_def list_all2_map2 elim!: list_all2_mono
      split: if_splits)

text \<open>Every path through \<^verbatim>\<open>_process_phone_number\<close> marks the phone, and nothing else.\<close>

lemma handle_add_error_table:
  "\<exists>st\<in>processed_statuses.
     phone_numbers (snd (handle_add_error pe link p e m)) = set_phone_status st p (phone_numbers m)"
  by (auto simp: handle_add_error_def set_phones_def Let_def mark_phone_invited_def
      mark_phone_failed_def processed_statuses_def)

lemma try_add_table:
  "\<exists>st\<in>processed_statuses.
     phone_numbers (snd (try_add pe link p m)) = set_phone_status st p (phone_numbers m)"
proof (cases "pe_resolve_user pe")
  case (Fails e)
  then show ?thesis using handle_add_error_table[of pe link p e m] by (simp add: try_add_def)
next
  case Done
  let ?result = "invite_entity_to_group (pe_group_kind pe) (pe_invite_request pe)"
  let ?e = "case inv_error ?result of Some e \<Rightarrow> e | None \<Rightarrow> ''Unknown error during invite''"
  show ?thesis
    using Done handle_add_error_table[of pe link p ?e m]
    by (auto simp: try_add_def set_phones_def Let_def mark_phone_added_def
        mark_phone_invited_def mark_phone_failed_def processed_statuses_def)
qed

lemma process_phone_number_table:
  "\<exists>st\<in>processed_statuses.
     phone_numbers (snd (process_phone_number pe sn p link m))
       = set_phone_status st p (phone_numbers m)"
proof -
  let ?m1 = "if p \<notin> pe_active_contacts pe \<and> pe_import_contacts pe = Done
             then m\<lparr>contacts := (contacts m)(sn := insert p (contacts m sn))\<rparr> else m"
  have m1: "phone_numbers ?m1 = phone_numbers m" by simp
  show ?thesis
  proof (cases "pe_resolve_group pe")
    case (Fails e)
    then show ?thesis
      by (auto simp: process_phone_number_def set_phones_def Let_def mark_phone_failed_def
          processed_statuses_def)
  next
    case Done
    from try_add_table[of pe link p ?m1] m1
    obtain st where "st \<in> processed_statuses"
      and "phone_numbers (snd (try_add pe link p ?m1)) = set_phone_status st p (phone_numbers m)"
      by auto
    then show ?thesis
      using Done by (auto simp: process_phone_number_def Let_def case_prod_beta)
  qed
qed

lemma record_outcome_table:
  assumes "st \<in> processed_statuses"
      and "phone_numbers (ls_manager ls) = set_phone_status st p t"
  shows "\<exists>st'\<in>processed_statuses.
           phone_numbers (ls_manager (record_outcome day p idx sn success ls))
             = set_phone_status st' p t"
  using assms
  by (auto simp: record_outcome_def set_phones_def Let_def mark_phone_added_def
      mark_phone_invited_def set_phone_status_twice processed_statuses_def)

lemma record_outcome_assigned:
  "ls_assigned (record_outcome day p idx sn success ls) = ls_assigned ls"
  by (simp add: record_outcome_def Let_def)

lemma forget_sessions_phones [simp]:
  "phone_numbers (forget_sessions names m) = phone_numbers m"
  by (simp add: forget_sessions_def)

lemma forget_nobody [simp]: "forget_sessions [] m = m"
  by (simp add: forget_sessions_def)

text \<open>One phone handed to a session: the invariant of the loop is kept.\<close>

lemma phone_step_invariant:
  assumes inv: "loop_invariant t P ls" and p: "p \<in> P"
      and pp: "process_phone_number pe sn p link (forget_sessions names (ls_manager ls))
                 = (success, m')"
  shows "loop_invariant t P
           (record_outcome day p idx sn success
              (ls\<lparr>ls_session_index := k, ls_assigned := ls_assigned ls @ [(p, sn)],
                  ls_manager := m'\<rparr>))"
proof -
  let ?ls1 = "ls\<lparr>ls_session_index := k, ls_assigned := ls_assigned ls @ [(p, sn)],
                  ls_manager := m'\<rparr>"
  from process_phone_number_table[of pe sn p link "forget_sessions names (ls_manager ls)"] pp
  obtain st where st: "st \<in> processed_statuses"
    and m': "phone_numbers m' = set_phone_status st p (phone_numbers (ls_manager ls))"
    by auto
  from record_outcome_table[OF st, of ?ls1 p "phone_numbers (ls_manager ls)" day idx sn success] m'
  obtain st' where st': "st' \<in> processed_statuses"
    and tbl: "phone_numbers (ls_manager (record_outcome day p idx sn success ?ls1))
                = set_phone_status st' p (phone_numbers (ls_manager ls))"
    by auto
  have asg: "fst ` set (ls_assigned (record_outcome day p idx sn success ?ls1))
               = insert p (fst ` set (ls_assigned ls))"
    by (simp add: record_outcome_assigned)
  from inv have "settled (fst ` set (ls_assigned ls)) t (phone_numbers (ls_manager ls))"
    and "fst ` set (ls_assigned ls) \<subseteq> P"
    by (simp_all add: loop_invariant_def)
  then show ?thesis
    unfolding loop_invariant_def asg tbl using settled_mark[OF _ st'] p by simp
qed

lemma process_batch_invariant:
  "loop_invariant t P ls \<Longrightarrow> row_phone ` set batch \<subseteq> P \<Longrightarrow>
   loop_invariant t P (snd (process_batch env delay link batch ls))"
proof (induction batch arbitrary: ls)
  case Nil
  then show ?case by simp
next
  case (Cons row batch)
  then have p: "row_phone row \<in> P" and rest: "row_phone ` set batch \<subseteq> P" by auto
  note inv = Cons.prems(1)
  show ?case
  proof (cases "row_phone row = []")
    case True
    have "loop_invariant t P
            (ls\<lparr>ls_results := (ls_results ls)\<lparr>n_failed := n_failed (ls_results ls) + 1\<rparr>\<rparr>)"
      using inv by (simp add: loop_invariant_def)
    from Cons.IH[OF this rest] show ?thesis using True by simp
  next
    case False
    define registry where
      "registry = forget_sessions (removed_meanwhile env (row_phone row)) (ls_manager ls)"
    have kept: "loop_invariant t P (ls\<lparr>ls_manager := registry\<rparr>)"
      using inv by (simp add: loop_invariant_def registry_def)
    show ?thesis
    proof (cases "find_session (ls_session_index ls) (ls_available ls)")
      case None
      have "loop_invariant t P
              (ls\<lparr>ls_results :=
                    (ls_results ls)\<lparr>n_skipped :=
                      n_total (ls_results ls) - processed_count (ls_results ls)\<rparr>,
                  ls_manager := registry\<rparr>)"
        using inv by (simp add: loop_invariant_def registry_def)
      then show ?thesis using False None by (simp add: registry_def Let_def)
    next
      case (Some idx)
      define sn where "sn = fst (ls_available ls ! idx)"
      show ?thesis
      proof (cases "map_of (sessions registry) sn")
        case None
        then show ?thesis
          using False Some kept by (simp add: registry_def sn_def Let_def)
      next
        case (Some client)
        obtain success m' where
          pp: "process_phone_number (phone_answers env sn (row_phone row)) sn (row_phone row)
                 link (forget_sessions (removed_meanwhile env (row_phone row)) (ls_manager ls))
                 = (success, m')"
          by (cases "process_phone_number (phone_answers env sn (row_phone row)) sn
                       (row_phone row) link
                       (forget_sessions (removed_meanwhile env (row_phone row)) (ls_manager ls))")
             auto
        define ls2 where
          "ls2 = record_outcome (run_today env) (row_phone row) idx sn success
                   (ls\<lparr>ls_session_index := idx + 1,
                       ls_assigned := ls_assigned ls @ [(row_phone row, sn)],
                       ls_manager := m'\<rparr>)"
        have inv2: "loop_invariant t P ls2"
          unfolding ls2_def by (rule phone_step_invariant[OF inv p pp])
        have eq: "process_batch env delay link (row # batch) ls
                    = (case sleep_answer env delay of
                         Fails e \<Rightarrow> (Fails e, ls2)
                       | Done \<Rightarrow> process_batch env delay link batch ls2)"
          using False \<open>find_session (ls_session_index ls) (ls_available ls) = Some idx\<close>
            Some pp
          by (simp add: registry_def sn_def ls2_def Let_def split: call.splits)
        show ?thesis
        proof (cases "sleep_answer env delay")
          case Done
          then show ?thesis using eq Cons.IH[OF inv2 rest] by simp
        next
          case (Fails e)
          then show ?thesis using eq inv2 by simp
        qed
      qed
    qed
  qed
qed

lemma process_batches_invariant:
  "loop_invariant t P ls \<Longrightarrow> row_phone ` set pending \<subseteq> P \<Longrightarrow>
   loop_invariant t P (snd (process_batches env delay link n pending starts ls))"
proof (induction starts arbitrary: ls)
  case Nil
  then show ?case by simp
next
  case (Cons i starts)
  let ?b = "process_batch env delay link (take n (drop i pending)) ls"
  have "row_phone ` set (take n (drop i pending)) \<subseteq> P"
    using Cons.prems(2) by (auto dest!: in_set_takeD in_set_dropD)
  from process_batch_invariant[OF Cons.prems(1) this]
  have inv1: "loop_invariant t P (snd ?b)" .
  obtain c ls1 where b: "?b = (c, ls1)" by (cases ?b) auto
  with inv1 have inv1': "loop_invariant t P ls1" by simp
  show ?case
  proof (cases c)
    case (Fails e)
    then show ?thesis using b inv1' by simp
  next
    case Done
    show ?thesis
    proof (cases "i + n < length pending")
      case False
      then show ?thesis using b Done Cons.IH[OF inv1' Cons.prems(2)] by simp
    next
      case True
      show ?thesis
      proof (cases "sleep_answer env (delay * 2)")
        case Done2: Done
        then show ?thesis using b Done True Cons.IH[OF inv1' Cons.prems(2)] by simp
      next
        case (Fails e)
        then show ?thesis using b Done True inv1' by simp
      qed
    qed
  qed
qed

lemma load_all_sessions_phones: "phone_numbers (load_all_sessions a x) = phone_numbers x"
proof -
  have "phone_numbers (fold (load_session a) rows x) = phone_numbers x" for rows
    by (induction rows arbitrary: x)
       (auto simp: load_session_def split: option.splits load_answer.splits)
  then show ?thesis by (simp add: load_all_sessions_def)
qed

lemma store_invite_message_phones [simp]:
  "phone_numbers (store_invite_message args m) = phone_numbers m"
  by (simp add: store_invite_message_def)

lemma prepare_sessions_phones:
  "prepare_sessions env args m = (available, m2) \<Longrightarrow> phone_numbers m2 = phone_numbers m"
  by (auto simp: prepare_sessions_def Let_def load_all_sessions_phones
      split: option.splits prod.splits)

text \<open>
  A run either ends before the loop, with nothing handed to a session and the table as
  it was, or it returns what the loop over the batches reached, whether the loop ended or
  an exception left it.
\<close>

lemma add_users_cases:
  assumes "add_users_to_group env args m = (res, assigned, m')"
  shows "(assigned = [] \<and> phone_numbers m' = phone_numbers m)
       \<or> (\<exists>start link n starts.
             phone_numbers (ls_manager start) = phone_numbers m \<and> ls_assigned start = [] \<and>
             assigned = ls_assigned (snd (process_batches env (arg_delay args) link n
                 (get_pending_phone_numbers (phone_numbers m)) starts start)) \<and>
             m' = ls_manager (snd (process_batches env (arg_delay args) link n
                 (get_pending_phone_numbers (phone_numbers m)) starts start)))"
proof -
  obtain available m2 where ps: "prepare_sessions env args m = (available, m2)"
    by (cases "prepare_sessions env args m") auto
  note m2 = prepare_sessions_phones[OF ps]
  let ?pending = "get_pending_phone_numbers (phone_numbers m)"
  show ?thesis
  proof (cases "?pending = [] \<or> available = [] \<or> admin_client_for_group env = None
                  \<or> resolve_target_group env \<noteq> Done \<or> arg_batch_size args \<le> 0")
    case True
    then have "assigned = [] \<and> phone_numbers m' = phone_numbers m"
      using assms ps m2
      by (auto simp: add_users_to_group_def Let_def failure_def
          split: if_splits option.splits call.splits)
    then show ?thesis by blast
  next
    case False
    then obtain ac where ok: "?pending \<noteq> []" "available \<noteq> []"
      "admin_client_for_group env = Some ac" "resolve_target_group env = Done"
      "\<not> arg_batch_size args < 0" "arg_batch_size args \<noteq> 0" by auto
    define start where
      "start = \<lparr>ls_results = \<lparr>n_added = 0, n_failed = 0, n_invited = 0,
                               n_total = int (length ?pending), run_errors = [],
                               n_skipped = 0\<rparr>,
                ls_session_index = 0, ls_available = available, ls_assigned = [],
                ls_manager = m2\<rparr>"
    let ?loop = "process_batches env (arg_delay args) (created_invite_link env)
                   (nat (arg_batch_size args)) ?pending
                   (batch_starts (nat (arg_batch_size args)) (length ?pending)) start"
    have run: "(res, assigned, m')
                 = (case ?loop of
                      (Fails e, final) \<Rightarrow>
                        (failure (''Group access failed: '' @ e), ls_assigned final,
                         ls_manager final)
                    | (Done, final) \<Rightarrow>
                        (\<lparr>res_success = True, res_message = None,
                          res_results = Some (ls_results final), res_error = None\<rparr>,
                         ls_assigned final, ls_manager final))"
      using assms ps ok by (simp add: add_users_to_group_def Let_def start_def)
    have "assigned = ls_assigned (snd ?loop) \<and> m' = ls_manager (snd ?loop)"
      using run by (cases ?loop; cases "fst ?loop") auto
    moreover have "phone_numbers (ls_manager start) = phone_numbers m \<and> ls_assigned start = []"
      by (simp add: start_def m2)
    ultimately show ?thesis by blast
  qed
qed

lemma add_users_settled:
  assumes "add_users_to_group env args m = (res, assigned, m')"
  shows "settled (fst ` set assigned) (phone_numbers m) (phone_numbers m')"
    and "fst ` set assigned \<subseteq> row_phone ` set (get_pending_phone_numbers (phone_numbers m))"
proof -
  let ?pending = "get_pending_phone_numbers (phone_numbers m)"
  let ?P = "row_phone ` set ?pending"
  from add_users_cases[OF assms]
  have "settled (fst ` set assigned) (phone_numbers m) (phone_numbers m')
        \<and> fst ` set assigned \<subseteq> ?P"
  proof (elim disjE conjE exE)
    assume "assigned = []" and "phone_numbers m' = phone_numbers m"
    then show ?thesis by (simp add: settled_start)
  next
    fix start link n starts
    assume a: "phone_numbers (ls_manager start) = phone_numbers m" "ls_assigned start = []"
      and b: "assigned = ls_assigned (snd (process_batches env (arg_delay args) link n
                 ?pending starts start))"
             "m' = ls_manager (snd (process_batches env (arg_delay args) link n
                 ?pending starts start))"
    have "loop_invariant (phone_numbers m) ?P
            (snd (process_batches env (arg_delay args) link n ?pending starts start))"
      by (rule process_batches_invariant) (simp_all add: loop_invariant_def a settled_start)
    then show ?thesis unfolding b by (simp add: loop_invariant_def)
  qed
  then show "settled (fst ` set assigned) (phone_numbers m) (phone_numbers m')"
    and "fst ` set assigned \<subseteq> ?P"
    by simp_all
qed

subsection \<open>Round-robin selection\<close>

text \<open>
  The search returns only the index of a session with quota left, and finds none
  exactly when every candidate is exhausted.
\<close>

lemma find_session_sound:
  assumes "find_session k av = Some i"
  shows "i < length av \<and> 0 < snd (av ! i)"
proof -
  from assms obtain j where "j < length av" and i: "i = (k + j) mod length av"
    and pos: "0 < snd (av ! i)"
    by (auto simp: find_session_def find_Some_iff)
  then have "0 < length av" by auto
  then have "i < length av" using i by simp
  with pos show ?thesis by simp
qed

lemma find_session_none:
  "find_session k av = None \<longleftrightarrow> list_all (\<lambda>e. snd e \<le> 0) av"
proof
  assume none: "find_session k av = None"
  have "snd (av ! i) \<le> 0" if "i < length av" for i
  proof -
    let ?n = "length av"
    let ?j = "(i + ?n - k mod ?n) mod ?n"
    have n: "0 < ?n" using that by auto
    have j: "?j < ?n" using n by simp
    have "(k + ?j) mod ?n = i"
    proof -
      have "(k + ?j) mod ?n = (k mod ?n + (i + ?n - k mod ?n)) mod ?n"
        by (metis mod_add_eq mod_mod_trivial)
      also have "k mod ?n + (i + ?n - k mod ?n) = i + ?n"
        using n by (simp add: less_imp_le_nat trans_le_add2)
      also have "(i + ?n) mod ?n = i" using that by simp
      finally show ?thesis .
    qed
    moreover from none j have "\<not> 0 < snd (av ! ((k + ?j) mod ?n))"
      by (simp add: find_session_def find_None_iff)
    ultimately show ?thesis by simp
  qed
  then show "list_all (\<lambda>e. snd e \<le> 0) av"
    by (auto simp: list_all_length)
next
  assume all: "list_all (\<lambda>e. snd e \<le> 0) av"
  have "\<not> 0 < snd (av ! ((k + j) mod length av))" if "j < length av" for j
  proof -
    from that have "0 < length av" by auto
    then have "(k + j) mod length av < length av" by simp
    with all show ?thesis by (auto simp: list_all_length not_less)
  qed
  then show "find_session k av = None"
    by (auto simp: find_session_def find_None_iff)
qed

lemma example_batch_starts: "batch_starts 3 (Suc (Suc (Suc (Suc 0)))) = [0, 3]"
  by (simp add: batch_starts_def upt_rec)

text \<open>
  A phone whose group and user resolve and whose invite call reports success: the
  outcome is \<^verbatim>\<open>added\<close>, the phone is marked, the registry is untouched.
\<close>

lemma invite_reported_success:
  assumes "pe_resolve_group pe = Done" and "pe_resolve_user pe = Done"
      and "inv_result (invite_entity_to_group (pe_group_kind pe) (pe_invite_request pe))"
  shows "fst (process_phone_number pe sn p link m) = ''added''"
    and "phone_numbers (snd (process_phone_number pe sn p link m))
           = mark_phone_added p (phone_numbers m)"
    and "sessions (snd (process_phone_number pe sn p link m)) = sessions m"
  using assms
  by (simp_all add: process_phone_number_def try_add_def set_phones_def Let_def)

lemma mark_phone_added_twice: "mark_phone_added p (mark_phone_added p t) = mark_phone_added p t"
  by (simp add: mark_phone_added_def set_phone_status_twice)

text \<open>
  One step of the loop for such a phone, from a state whose registry holds the chosen
  session and is left alone by other tasks: the state after the phone was recorded, and
  then the sleep.
\<close>

lemma step_added:
  assumes "row_phone row \<noteq> []" and "find_session k av = Some i"
      and "removed_meanwhile env (row_phone row) = []"
      and "map_of (sessions m) (fst (av ! i)) = Some c"
      and "pe_resolve_group (phone_answers env (fst (av ! i)) (row_phone row)) = Done"
      and "pe_resolve_user (phone_answers env (fst (av ! i)) (row_phone row)) = Done"
      and "inv_result (invite_entity_to_group
             (pe_group_kind (phone_answers env (fst (av ! i)) (row_phone row)))
             (pe_invite_request (phone_answers env (fst (av ! i)) (row_phone row))))"
  shows "\<exists>m'. process_batch env delay link (row # batch)
            \<lparr>ls_results = r, ls_session_index = k, ls_available = av, ls_assigned = asg,
             ls_manager = m\<rparr>
        = (case sleep_answer env delay of
             Fails e \<Rightarrow>
               (Fails e,
                \<lparr>ls_results = r\<lparr>n_added := n_added r + 1\<rparr>, ls_session_index = i + 1,
                 ls_available = av[i := (fst (av ! i), snd (av ! i) - 1)],
                 ls_assigned = asg @ [(row_phone row, fst (av ! i))], ls_manager = m'\<rparr>)
           | Done \<Rightarrow>
               process_batch env delay link batch
                 \<lparr>ls_results = r\<lparr>n_added := n_added r + 1\<rparr>, ls_session_index = i + 1,
                  ls_available = av[i := (fst (av ! i), snd (av ! i) - 1)],
                  ls_assigned = asg @ [(row_phone row, fst (av ! i))], ls_manager = m'\<rparr>)
      \<and> phone_numbers m' = mark_phone_added (row_phone row) (phone_numbers m)
      \<and> limits m' = increment_session_limit (limits m) (fst (av ! i)) (run_today env)
      \<and> sessions m' = sessions m"
proof -
  let ?sn = "fst (av ! i)"
  let ?pe = "phone_answers env ?sn (row_phone row)"
  let ?pp = "process_phone_number ?pe ?sn (row_phone row) link m"
  let ?m' = "set_phones (mark_phone_added (row_phone row))
               ((snd ?pp)\<lparr>limits := increment_session_limit (limits (snd ?pp)) ?sn (run_today env)\<rparr>)"
  note out = invite_reported_success[OF assms(5,6,7), of ?sn "row_phone row" link m]
  have "process_batch env delay link (row # batch)
            \<lparr>ls_results = r, ls_session_index = k, ls_available = av, ls_assigned = asg,
             ls_manager = m\<rparr>
        = (case sleep_answer env delay of
             Fails e \<Rightarrow>
               (Fails e,
                \<lparr>ls_results = r\<lparr>n_added := n_added r + 1\<rparr>, ls_session_index = i + 1,
                 ls_available = av[i := (fst (av ! i), snd (av ! i) - 1)],
                 ls_assigned = asg @ [(row_phone row, fst (av ! i))], ls_manager = ?m'\<rparr>)
           | Done \<Rightarrow>
               process_batch env delay link batch
                 \<lparr>ls_results = r\<lparr>n_added := n_added r + 1\<rparr>, ls_session_index = i + 1,
                  ls_available = av[i := (fst (av ! i), snd (av ! i) - 1)],
                  ls_assigned = asg @ [(row_phone row, fst (av ! i))], ls_manager = ?m'\<rparr>)"
    using assms(1,2,3,4) out(1)
    by (simp add: Let_def case_prod_beta record_outcome_def split: call.splits)
  moreover have "phone_numbers ?m' = mark_phone_added (row_phone row) (phone_numbers m)"
    by (simp add: set_phones_def out(2) mark_phone_added_twice)
  moreover have "limits ?m' = increment_session_limit (limits m) ?sn (run_today env)"
    by (simp add: set_phones_def process_phone_number_limits)
  moreover have "sessions ?m' = sessions m"
    by (simp add: set_phones_def out(3))
  ultimately show ?thesis by blast
qed

lemma step_skipped:
  assumes "row_phone row \<noteq> []" and "find_session k av = None"
      and "removed_meanwhile env (row_phone row) = []"
  shows "process_batch env delay link (row # batch)
            \<lparr>ls_results = r, ls_session_index = k, ls_available = av, ls_assigned = asg,
             ls_manager = m\<rparr>
        = (Done,
           \<lparr>ls_results = r\<lparr>n_skipped := n_total r - processed_count r\<rparr>, ls_session_index = k,
            ls_available = av, ls_assigned = asg, ls_manager = m\<rparr>)"
  using assms by simp

text \<open>
  Four pending phones, candidates S1 with two additions left and S3 with one, batches of
  three, no delay; every invite call reports success, no sleep raises and no other task
  touches the registry.
\<close>

lemma chain_two_candidates:
  assumes today: "run_today env = ''2024-05-01''"
      and quiet: "\<And>p. removed_meanwhile env p = []"
      and sleeps: "sleep_answer env 0 = Done"
      and group: "\<And>sn p. pe_resolve_group (phone_answers env sn p) = Done"
      and user: "\<And>sn p. pe_resolve_user (phone_answers env sn p) = Done"
      and invite: "\<And>sn p. inv_result (invite_entity_to_group
                     (pe_group_kind (phone_answers env sn p))
                     (pe_invite_request (phone_answers env sn p)))"
      and s1: "map_of (sessions m) ''S1'' = Some c1"
      and s3: "map_of (sessions m) ''S3'' = Some c3"
  shows "\<exists>m'. process_batch env 0 link
                [pending_row ''+1001'', pending_row ''+1002'', pending_row ''+1003'']
                \<lparr>ls_results = counts 0 0, ls_session_index = 0,
                 ls_available = [(''S1'', 2), (''S3'', 1)], ls_assigned = [], ls_manager = m\<rparr>
            = (Done,
               \<lparr>ls_results = counts 3 0, ls_session_index = 1,
                ls_available = [(''S1'', 0), (''S3'', 0)],
                ls_assigned = [(''+1001'', ''S1''), (''+1002'', ''S3''), (''+1003'', ''S1'')],
                ls_manager = m'\<rparr>)
     \<and> process_batch env 0 link [pending_row ''+1004'']
           \<lparr>ls_results = counts 3 0, ls_session_index = 1,
            ls_available = [(''S1'', 0), (''S3'', 0)],
            ls_assigned = [(''+1001'', ''S1''), (''+1002'', ''S3''), (''+1003'', ''S1'')],
            ls_manager = m'\<rparr>
         = (Done,
            \<lparr>ls_results = counts 3 1, ls_session_index = 1,
             ls_available = [(''S1'', 0), (''S3'', 0)],
             ls_assigned = [(''+1001'', ''S1''), (''+1002'', ''S3''), (''+1003'', ''S1'')],
             ls_manager = m'\<rparr>)
     \<and> phone_numbers m'
         = mark_phone_added ''+1003'' (mark_phone_added ''+1002''
             (mark_phone_added ''+1001'' (phone_numbers m)))
     \<and> limits m'
         = increment_session_limit (increment_session_limit (increment_session_limit
             (limits m) ''S1'' ''2024-05-01'') ''S3'' ''2024-05-01'') ''S1'' ''2024-05-01''"
proof -
  have f1: "find_session 0 [(''S1'', 2), (''S3'', 1)] = Some 0"
    and f2: "find_session 1 [(''S1'', 1), (''S3'', 1)] = Some 1"
    and f3: "find_session 2 [(''S1'', 1), (''S3'', 0)] = Some 0"
    and f4: "find_session 1 [(''S1'', 0), (''S3'', 0)] = None"
    by (simp_all add: find_session_def upt_rec)
  have r1: "map_of (sessions m) (fst ([(''S1'', 2::int), (''S3'', 1)] ! 0)) = Some c1"
    using s1 by simp
  from step_added[where row="pending_row ''+1001''" and k=0 and i=0 and env=env and link=link
      and delay=0
      and batch="[pending_row ''+1002'', pending_row ''+1003'']" and r="counts 0 0" and asg="[]"
      and m=m, OF _ f1 quiet r1 group user invite]
  obtain m1 where st1: "process_batch env 0 link
        [pending_row ''+1001'', pending_row ''+1002'', pending_row ''+1003'']
        \<lparr>ls_results = counts 0 0, ls_session_index = 0,
         ls_available = [(''S1'', 2), (''S3'', 1)], ls_assigned = [], ls_manager = m\<rparr>
      = process_batch env 0 link [pending_row ''+1002'', pending_row ''+1003'']
        \<lparr>ls_results = counts 1 0, ls_session_index = 1,
         ls_available = [(''S1'', 1), (''S3'', 1)], ls_assigned = [(''+1001'', ''S1'')],
         ls_manager = m1\<rparr>"
    and p1: "phone_numbers m1 = mark_phone_added ''+1001'' (phone_numbers m)"
    and l1: "limits m1 = increment_session_limit (limits m) ''S1'' ''2024-05-01''"
    and g1: "sessions m1 = sessions m"
    by (auto simp: pending_row_def counts_def today sleeps numeral_2_eq_2
        simp del: process_batch.simps)
  have r2: "map_of (sessions m1) (fst ([(''S1'', 1::int), (''S3'', 1)] ! 1)) = Some c3"
    using s3 g1 by simp
  from step_added[where row="pending_row ''+1002''" and k=1 and i=1 and env=env and link=link
      and delay=0
      and batch="[pending_row ''+1003'']" and r="counts 1 0" and asg="[(''+1001'', ''S1'')]"
      and m=m1, OF _ f2 quiet r2 group user invite]
  obtain m2 where st2: "process_batch env 0 link [pending_row ''+1002'', pending_row ''+1003'']
        \<lparr>ls_results = counts 1 0, ls_session_index = 1,
         ls_available = [(''S1'', 1), (''S3'', 1)], ls_assigned = [(''+1001'', ''S1'')],
         ls_manager = m1\<rparr>
      = process_batch env 0 link [pending_row ''+1003'']
        \<lparr>ls_results = counts 2 0, ls_session_index = 2,
         ls_available = [(''S1'', 1), (''S3'', 0)],
         ls_assigned = [(''+1001'', ''S1''), (''+1002'', ''S3'')], ls_manager = m2\<rparr>"
    and p2: "phone_numbers m2 = mark_phone_added ''+1002'' (phone_numbers m1)"
    and l2: "limits m2 = increment_session_limit (limits m1) ''S3'' ''2024-05-01''"
    and g2: "sessions m2 = sessions m1"
    by (auto simp: pending_row_def counts_def today sleeps numeral_2_eq_2
        simp del: process_batch.simps)
  have r3: "map_of (sessions m2) (fst ([(''S1'', 1::int), (''S3'', 0)] ! 0)) = Some c1"
    using s1 g1 g2 by simp
  from step_added[where row="pending_row ''+1003''" and k=2 and i=0 and env=env and link=link
      and delay=0
      and batch="[]" and r="counts 2 0" and asg="[(''+1001'', ''S1''), (''+1002'', ''S3'')]"
      and m=m2, OF _ f3 quiet r3 group user invite]
  obtain m3 where st3: "process_batch env 0 link [pending_row ''+1003'']
        \<lparr>ls_results = counts 2 0, ls_session_index = 2,
         ls_available = [(''S1'', 1), (''S3'', 0)],
         ls_assigned = [(''+1001'', ''S1''), (''+1002'', ''S3'')], ls_manager = m2\<rparr>
      = process_batch env 0 link []
        \<lparr>ls_results = counts 3 0, ls_session_index = 1,
         ls_available = [(''S1'', 0), (''S3'', 0)],
         ls_assigned = [(''+1001'', ''S1''), (''+1002'', ''S3''), (''+1003'', ''S1'')],
         ls_manager = m3\<rparr>"
    and p3: "phone_numbers m3 = mark_phone_added ''+1003'' (phone_numbers m2)"
    and l3: "limits m3 = increment_session_limit (limits m2) ''S1'' ''2024-05-01''"
    by (auto simp: pending_row_def counts_def today sleeps numeral_2_eq_2
        simp del: process_batch.simps)
  have st4: "process_batch env 0 link [pending_row ''+1004'']
        \<lparr>ls_results = counts 3 0, ls_session_index = 1,
         ls_available = [(''S1'', 0), (''S3'', 0)],
         ls_assigned = [(''+1001'', ''S1''), (''+1002'', ''S3''), (''+1003'', ''S1'')],
         ls_manager = m3\<rparr>
      = (Done,
         \<lparr>ls_results = counts 3 1, ls_session_index = 1,
          ls_available = [(''S1'', 0), (''S3'', 0)],
          ls_assigned = [(''+1001'', ''S1''), (''+1002'', ''S3''), (''+1003'', ''S1'')],
          ls_manager = m3\<rparr>)"
    using step_skipped[where row="pending_row ''+1004''" and k=1 and env=env and link=link
        and delay=0 and batch="[]" and r="counts 3 0" and m=m3
        and asg="[(''+1001'', ''S1''), (''+1002'', ''S3''), (''+1003'', ''S1'')]", OF _ f4 quiet]
    by (simp add: pending_row_def counts_def processed_count_def del: process_batch.simps)
  have first: "process_batch env 0 link
        [pending_row ''+1001'', pending_row ''+1002'', pending_row ''+1003'']
        \<lparr>ls_results = counts 0 0, ls_session_index = 0,
         ls_available = [(''S1'', 2), (''S3'', 1)], ls_assigned = [], ls_manager = m\<rparr>
      = (Done,
         \<lparr>ls_results = counts 3 0, ls_session_index = 1,
          ls_available = [(''S1'', 0), (''S3'', 0)],
          ls_assigned = [(''+1001'', ''S1''), (''+1002'', ''S3''), (''+1003'', ''S1'')],
          ls_manager = m3\<rparr>)"
    by (simp only: st1 st2 st3 process_batch.simps(1))
  from first st4 p1 p2 p3 l1 l2 l3 show ?thesis
    by (intro exI[of _ m3]) simp
qed

lemma example_pending:
  "get_pending_phone_numbers (phone_numbers example_manager)
     = [pending_row ''+1001'', pending_row ''+1002'', pending_row ''+1003'', pending_row ''+1004'']"
  by (simp add: get_pending_phone_numbers_def example_manager_def pending_row_def)

lemma example_prepare:
  "prepare_sessions (example_env\<lparr>phone_answers := answers, sleep_answer := sleeping\<rparr>)
     (example_args\<lparr>arg_delay := delay\<rparr>) example_manager
     = ([(''S1'', 2), (''S3'', 1)], example_manager)"
  by (simp add: prepare_sessions_def store_invite_message_def truthy_def load_all_sessions_def
      load_session_def admin_candidate_def user_candidates_def get_session_daily_limit_def
      example_env_def example_args_def example_manager_def example_limits_def)

lemma example_env_unchanged:
  "example_env\<lparr>phone_answers := (\<lambda>session_name p. all_added),
               sleep_answer := (\<lambda>seconds. Done)\<rparr> = example_env"
  "example_args\<lparr>arg_delay := 0\<rparr> = example_args"
  by (simp_all add: example_env_def example_args_def)

text \<open>The whole run of that scenario, for any environment of the kind described.\<close>

lemma run_two_candidates:
  assumes prep: "prepare_sessions env example_args example_manager
                   = ([(''S1'', 2), (''S3'', 1)], example_manager)"
      and admin: "admin_client_for_group env = Some ac"
      and target: "resolve_target_group env = Done"
      and today: "run_today env = ''2024-05-01''"
      and quiet: "\<And>p. removed_meanwhile env p = []"
      and sleeps: "sleep_answer env 0 = Done"
      and group: "\<And>sn p. pe_resolve_group (phone_answers env sn p) = Done"
      and user: "\<And>sn p. pe_resolve_user (phone_answers env sn p) = Done"
      and invite: "\<And>sn p. inv_result (invite_entity_to_group
                     (pe_group_kind (phone_answers env sn p))
                     (pe_invite_request (phone_answers env sn p)))"
  shows "\<exists>m'. add_users_to_group env example_args example_manager
          = (\<lparr>res_success = True, res_message = None, res_results = Some (counts 3 1),
              res_error = None\<rparr>,
             [(''+1001'', ''S1''), (''+1002'', ''S3''), (''+1003'', ''S1'')], m')
      \<and> phone_numbers m'
          = mark_phone_added ''+1003'' (mark_phone_added ''+1002''
              (mark_phone_added ''+1001'' (phone_numbers example_manager)))
      \<and> limits m'
          = increment_session_limit (increment_session_limit (increment_session_limit
              example_limits ''S1'' ''2024-05-01'') ''S3'' ''2024-05-01'') ''S1'' ''2024-05-01''"
proof -
  have reg: "map_of (sessions example_manager) ''S1'' = Some (File_client Users ''S1'')"
    "map_of (sessions example_manager) ''S3'' = Some (File_client Users ''S3'')"
    by (simp_all add: example_manager_def)
  from chain_two_candidates[OF today quiet sleeps group user invite reg,
      of "created_invite_link env"]
  obtain m' where first: "process_batch env 0 (created_invite_link env)
                [pending_row ''+1001'', pending_row ''+1002'', pending_row ''+1003'']
                \<lparr>ls_results = counts 0 0, ls_session_index = 0,
                 ls_available = [(''S1'', 2), (''S3'', 1)], ls_assigned = [],
                 ls_manager = example_manager\<rparr>
            = (Done,
               \<lparr>ls_results = counts 3 0, ls_session_index = 1,
                ls_available = [(''S1'', 0), (''S3'', 0)],
                ls_assigned = [(''+1001'', ''S1''), (''+1002'', ''S3''), (''+1003'', ''S1'')],
                ls_manager = m'\<rparr>)"
    and second: "process_batch env 0 (created_invite_link env) [pending_row ''+1004'']
           \<lparr>ls_results = counts 3 0, ls_session_index = 1,
            ls_available = [(''S1'', 0), (''S3'', 0)],
            ls_assigned = [(''+1001'', ''S1''), (''+1002'', ''S3''), (''+1003'', ''S1'')],
            ls_manager = m'\<rparr>
         = (Done,
            \<lparr>ls_results = counts 3 1, ls_session_index = 1,
             ls_available = [(''S1'', 0), (''S3'', 0)],
             ls_assigned = [(''+1001'', ''S1''), (''+1002'', ''S3''), (''+1003'', ''S1'')],
             ls_manager = m'\<rparr>)"
    and phones: "phone_numbers m'
         = mark_phone_added ''+1003'' (mark_phone_added ''+1002''
             (mark_phone_added ''+1001'' (phone_numbers example_manager)))"
    and lims: "limits m'
         = increment_session_limit (increment_session_limit (increment_session_limit
             (limits example_manager) ''S1'' ''2024-05-01'') ''S3'' ''2024-05-01'')
             ''S1'' ''2024-05-01''"
    by blast
  have args: "arg_batch_size example_args = 3" "arg_delay example_args = 0"
    by (simp_all add: example_args_def)
  have loop: "process_batches env 0 (created_invite_link env) 3
                [pending_row ''+1001'', pending_row ''+1002'', pending_row ''+1003'',
                 pending_row ''+1004''] [0, 3]
                \<lparr>ls_results = counts 0 0, ls_session_index = 0,
                 ls_available = [(''S1'', 2), (''S3'', 1)], ls_assigned = [],
                 ls_manager = example_manager\<rparr>
            = (Done,
               \<lparr>ls_results = counts 3 1, ls_session_index = 1,
                ls_available = [(''S1'', 0), (''S3'', 0)],
                ls_assigned = [(''+1001'', ''S1''), (''+1002'', ''S3''), (''+1003'', ''S1'')],
                ls_manager = m'\<rparr>)"
    using first second sleeps by (simp del: process_batch.simps)
  have "add_users_to_group env example_args example_manager
          = (\<lparr>res_success = True, res_message = None, res_results = Some (counts 3 1),
              res_error = None\<rparr>,
             [(''+1001'', ''S1''), (''+1002'', ''S3''), (''+1003'', ''S1'')], m')"
    unfolding add_users_to_group_def
    by (simp add: example_pending prep admin target args example_batch_starts
        loop[unfolded counts_def] counts_def Let_def
        del: process_batch.simps process_batches.simps)
  moreover have "limits example_manager = example_limits"
    by (simp add: example_manager_def)
  ultimately show ?thesis using phones lims by auto
qed

lemma all_added_answers:
  "pe_resolve_group all_added = Done" "pe_resolve_user all_added = Done"
  "inv_result (invite_entity_to_group (pe_group_kind all_added) (pe_invite_request all_added))"
  by (simp_all add: all_added_def invite_entity_to_group_def request_result_def
      invite_succeeded_def)

lemma already_member_answers:
  "pe_resolve_group already_member = Done" "pe_resolve_user already_member = Done"
  "inv_result (invite_entity_to_group (pe_group_kind already_member)
     (pe_invite_request already_member))"
  by (simp_all add: already_member_def all_added_def invite_entity_to_group_def
      request_result_def invite_succeeded_def)

lemma example_run:
  "\<exists>m'. add_users_to_group example_env example_args example_manager
          = (\<lparr>res_success = True, res_message = None, res_results = Some (counts 3 1),
              res_error = None\<rparr>,
             [(''+1001'', ''S1''), (''+1002'', ''S3''), (''+1003'', ''S1'')], m')
      \<and> phone_numbers m'
          = mark_phone_added ''+1003'' (mark_phone_added ''+1002''
              (mark_phone_added ''+1001'' (phone_numbers example_manager)))"
proof -
  have prep: "prepare_sessions example_env example_args example_manager
                = ([(''S1'', 2), (''S3'', 1)], example_manager)"
    using example_prepare[where answers="\<lambda>session_name p. all_added"
        and sleeping="\<lambda>seconds. Done" and delay=0]
    by (simp only: example_env_unchanged)
  have env: "admin_client_for_group example_env = Some (File_client Admins ''Admin_1'')"
    "resolve_target_group example_env = Done" "run_today example_env = ''2024-05-01''"
    "\<And>p. removed_meanwhile example_env p = []" "sleep_answer example_env 0 = Done"
    "\<And>sn p. phone_answers example_env sn p = all_added"
    by (simp_all add: example_env_def)
  from run_two_candidates[OF prep env(1,2,3,4,5)] all_added_answers env(6)
  show ?thesis by auto
qed

text \<open>
  Claim C2. Sessions S1, S2 and S3 are loaded with 2, 0 and 1 additions left under a cap
  of 5, four targets are pending and every addition succeeds. The run hands the first
  three targets to S1, S3 and S1 in that order; S2 is not among the candidates and is
  never chosen. The fourth target finds no session with quota: the result counts one
  skipped target and its stored status stays \<^verbatim>\<open>pending\<close> (the queue has no other
  mark for it). The last four equations run the round-robin search on a list that still
  contains the exhausted S2: it is passed over.
\<close>

theorem round_robin_example:
  "get_session_daily_limit example_limits ''S1'' 5 ''2024-05-01'' = 2
   \<and> get_session_daily_limit example_limits ''S2'' 5 ''2024-05-01'' = 0
   \<and> get_session_daily_limit example_limits ''S3'' 5 ''2024-05-01'' = 1
   \<and> available_sessions example_env example_args example_manager = [(''S1'', 2), (''S3'', 1)]
   \<and> fst (snd (add_users_to_group example_env example_args example_manager))
       = [(''+1001'', ''S1''), (''+1002'', ''S3''), (''+1003'', ''S1'')]
   \<and> res_results (fst (add_users_to_group example_env example_args example_manager))
       = Some (counts 3 1)
   \<and> map row_status
        (phone_numbers (snd (snd (add_users_to_group example_env example_args example_manager))))
       = [''added'', ''added'', ''added'', ''pending'']
   \<and> find_session 0 [(''S1'', 2), (''S2'', 0), (''S3'', 1)] = Some 0
   \<and> find_session 1 [(''S1'', 1), (''S2'', 0), (''S3'', 1)] = Some 2
   \<and> find_session 3 [(''S1'', 1), (''S2'', 0), (''S3'', 0)] = Some 0
   \<and> find_session 1 [(''S1'', 0), (''S2'', 0), (''S3'', 0)] = None"
proof -
  from example_run obtain m' where
    run: "add_users_to_group example_env example_args example_manager
          = (\<lparr>res_success = True, res_message = None, res_results = Some (counts 3 1),
              res_error = None\<rparr>,
             [(''+1001'', ''S1''), (''+1002'', ''S3''), (''+1003'', ''S1'')], m')"
    and phones: "phone_numbers m'
          = mark_phone_added ''+1003'' (mark_phone_added ''+1002''
              (mark_phone_added ''+1001'' (phone_numbers example_manager)))"
    by blast
  have quota: "get_session_daily_limit example_limits ''S1'' 5 ''2024-05-01'' = 2"
    "get_session_daily_limit example_limits ''S2'' 5 ''2024-05-01'' = 0"
    "get_session_daily_limit example_limits ''S3'' 5 ''2024-05-01'' = 1"
    by (simp_all add: get_session_daily_limit_def example_limits_def)
  have prep: "prepare_sessions example_env example_args example_manager
                = ([(''S1'', 2), (''S3'', 1)], example_manager)"
    using example_prepare[where answers="\<lambda>session_name p. all_added"
        and sleeping="\<lambda>seconds. Done" and delay=0]
    by (simp only: example_env_unchanged)
  have statuses: "map row_status (phone_numbers m') = [''added'', ''added'', ''added'', ''pending'']"
    by (simp add: phones example_manager_def pending_row_def mark_phone_added_def
        set_phone_status_def)
  have finds: "find_session 0 [(''S1'', 2), (''S2'', 0), (''S3'', 1)] = Some 0"
    "find_session 1 [(''S1'', 1), (''S2'', 0), (''S3'', 1)] = Some 2"
    "find_session 3 [(''S1'', 1), (''S2'', 0), (''S3'', 0)] = Some 0"
    "find_session 1 [(''S1'', 0), (''S2'', 0), (''S3'', 0)] = None"
    by code_simp+
  show ?thesis
    using finds by (simp add: quota available_sessions_def prep run statuses)
qed

subsection \<open>Failures of a run\<close>

text \<open>
  The run whose delay no float holds: the first phone is handed to S1, added and
  recorded; then \<^verbatim>\<open>asyncio.sleep(delay)\<close> raises and the handler of the \<^verbatim>\<open>try\<close>
  returns the unsuccessful result.
\<close>

lemma overflow_run:
  "\<exists>m'. add_users_to_group overflow_env overflow_args example_manager
          = (failure ''Group access failed: int too large to convert to float'',
             [(''+1001'', ''S1'')], m')
      \<and> phone_numbers m' = mark_phone_added ''+1001'' (phone_numbers example_manager)
      \<and> limits m' = increment_session_limit example_limits ''S1'' ''2024-05-01''"
proof -
  let ?e = overflow_env
  let ?link = "created_invite_link overflow_env"
  have prep: "prepare_sessions overflow_env overflow_args example_manager
                = ([(''S1'', 2), (''S3'', 1)], example_manager)"
    unfolding overflow_env_def overflow_args_def
    using example_prepare[where answers="phone_answers example_env"
        and sleeping="\<lambda>seconds. if seconds < huge_delay then Done
                    else Fails ''int too large to convert to float''" and delay="huge_delay"]
    by simp
  have env: "admin_client_for_group ?e = Some (File_client Admins ''Admin_1'')"
    "resolve_target_group ?e = Done" "run_today ?e = ''2024-05-01''"
    "\<And>p. removed_meanwhile ?e p = []"
    "\<And>sn p. phone_answers ?e sn p = all_added"
    by (simp_all add: overflow_env_def example_env_def)
  have sleep: "sleep_answer ?e (huge_delay) = Fails ''int too large to convert to float''"
    by (simp add: overflow_env_def)
  have args: "arg_batch_size overflow_args = 3" "arg_delay overflow_args = huge_delay"
    by (simp_all add: overflow_args_def example_args_def)
  have f1: "find_session 0 [(''S1'', 2), (''S3'', 1)] = Some 0"
    by (simp add: find_session_def upt_rec)
  have r1: "map_of (sessions example_manager) (fst ([(''S1'', 2::int), (''S3'', 1)] ! 0))
              = Some (File_client Users ''S1'')"
    by (simp add: example_manager_def)
  have ok: "pe_resolve_group (phone_answers ?e (fst ([(''S1'', 2::int), (''S3'', 1)] ! 0))
              (row_phone (pending_row ''+1001''))) = Done"
    "pe_resolve_user (phone_answers ?e (fst ([(''S1'', 2::int), (''S3'', 1)] ! 0))
              (row_phone (pending_row ''+1001''))) = Done"
    "inv_result (invite_entity_to_group
       (pe_group_kind (phone_answers ?e (fst ([(''S1'', 2::int), (''S3'', 1)] ! 0))
              (row_phone (pending_row ''+1001''))))
       (pe_invite_request (phone_answers ?e (fst ([(''S1'', 2::int), (''S3'', 1)] ! 0))
              (row_phone (pending_row ''+1001'')))))"
    by (simp_all only: env(5) all_added_answers)
  from step_added[where row="pending_row ''+1001''" and k=0 and i=0 and env="?e"
      and link="?link" and delay="huge_delay"
      and batch="[pending_row ''+1002'', pending_row ''+1003'']" and r="counts 0 0" and asg="[]"
      and m=example_manager, OF _ f1 env(4) r1 ok]
  obtain m1 where st1: "process_batch ?e (huge_delay) ?link
        [pending_row ''+1001'', pending_row ''+1002'', pending_row ''+1003'']
        \<lparr>ls_results = counts 0 0, ls_session_index = 0,
         ls_available = [(''S1'', 2), (''S3'', 1)], ls_assigned = [],
         ls_manager = example_manager\<rparr>
      = (Fails ''int too large to convert to float'',
        \<lparr>ls_results = counts 1 0, ls_session_index = 1,
         ls_available = [(''S1'', 1), (''S3'', 1)], ls_assigned = [(''+1001'', ''S1'')],
         ls_manager = m1\<rparr>)"
    and p1: "phone_numbers m1 = mark_phone_added ''+1001'' (phone_numbers example_manager)"
    and l1: "limits m1 = increment_session_limit (limits example_manager) ''S1'' ''2024-05-01''"
    by (auto simp: pending_row_def counts_def env(3) sleep numeral_2_eq_2
        simp del: process_batch.simps)
  have "add_users_to_group overflow_env overflow_args example_manager
          = (failure ''Group access failed: int too large to convert to float'',
             [(''+1001'', ''S1'')], m1)"
    unfolding add_users_to_group_def
    by (simp add: example_pending prep env(1,2) args example_batch_starts
        st1[unfolded counts_def] Let_def
        del: process_batch.simps)
  moreover have "limits example_manager = example_limits"
    by (simp add: example_manager_def)
  ultimately show ?thesis using p1 l1 by auto
qed

text \<open>
  The session chosen for a phone was deleted from the registry by another task: the
  lookup raises \<^verbatim>\<open>KeyError\<close>, which leaves the loop before the phone is handed over.
\<close>

lemma removed_session_is_missing:
  "session_name \<in> set names \<Longrightarrow>
   map_of (sessions (forget_sessions names m)) session_name = None"
  by (auto simp: forget_sessions_def map_of_eq_None_iff)

lemma key_error_leaves_the_loop:
  assumes "row_phone row \<noteq> []"
      and "find_session (ls_session_index ls) (ls_available ls) = Some i"
      and "fst (ls_available ls ! i) \<in> set (removed_meanwhile env (row_phone row))"
  shows "process_batch env delay link (row # batch) ls
         = (Fails (key_error (fst (ls_available ls ! i))),
            ls\<lparr>ls_manager :=
                 forget_sessions (removed_meanwhile env (row_phone row)) (ls_manager ls)\<rparr>)"
  using assms(1,2) removed_session_is_missing[OF assms(3), of "ls_manager ls"]
  by (simp add: Let_def)

text \<open>
  Claim C3. When there is no pending target, or no candidate session with remaining
  quota, or no admin client, or the target group cannot be resolved, the run returns a
  result whose success flag is false, has handed no phone to a session and leaves the
  table of targets exactly as it was. A run can also fail later, by an exception inside
  the loop over the phones. Whenever the success flag is false, every row whose phone had
  not been handed to a session before the failure is unchanged, and the rows of the
  phones that had been handed to one keep their phone and carry the status \<^verbatim>\<open>added\<close>,
  \<^verbatim>\<open>invited\<close> or \<^verbatim>\<open>failed\<close> of a processed target.
\<close>

theorem run_level_failure_keeps_queue:
  assumes "add_users_to_group env args m = (res, assigned, m')"
  shows "((get_pending_phone_numbers (phone_numbers m) = []
           \<or> available_sessions env args m = []
           \<or> admin_client_for_group env = None
           \<or> resolve_target_group env = Fails e)
          \<longrightarrow> \<not> res_success res \<and> assigned = [] \<and> phone_numbers m' = phone_numbers m)
       \<and> (\<not> res_success res \<longrightarrow>
            list_all2 (\<lambda>r r'. if row_phone r \<in> fst ` set assigned
                               then row_phone r' = row_phone r
                                    \<and> row_status r' \<in> {''added'', ''invited'', ''failed''}
                               else r' = r)
              (phone_numbers m) (phone_numbers m'))"
proof -
  obtain available m2 where ps: "prepare_sessions env args m = (available, m2)"
    by (cases "prepare_sessions env args m") auto
  note m2 = prepare_sessions_phones[OF ps]
  have "\<not> res_success res \<and> assigned = [] \<and> phone_numbers m' = phone_numbers m"
    if "get_pending_phone_numbers (phone_numbers m) = []
           \<or> available_sessions env args m = []
           \<or> admin_client_for_group env = None
           \<or> resolve_target_group env = Fails e"
    using that assms ps m2
    by (auto simp: add_users_to_group_def available_sessions_def failure_def Let_def
        split: if_splits option.splits call.splits)
  moreover have "list_all2 (\<lambda>r r'. if row_phone r \<in> fst ` set assigned
                               then row_phone r' = row_phone r
                                    \<and> row_status r' \<in> {''added'', ''invited'', ''failed''}
                               else r' = r)
              (phone_numbers m) (phone_numbers m')"
    using add_users_settled(1)[OF assms] unfolding settled_def processed_statuses_def .
  ultimately show ?thesis by blast
qed

theorem run_level_failure_keeps_queue_witness:
  "\<not> res_success (fst (add_users_to_group
         (example_env\<lparr>resolve_target_group := Fails ''No such group''\<rparr>)
         example_args example_manager))
   \<and> phone_numbers (snd (snd (add_users_to_group
         (example_env\<lparr>resolve_target_group := Fails ''No such group''\<rparr>)
         example_args example_manager))) = phone_numbers example_manager
   \<and> \<not> res_success (fst (add_users_to_group
         (example_env\<lparr>admin_client_for_group := None\<rparr>) example_args example_manager))
   \<and> \<not> res_success (fst (add_users_to_group example_env
         (example_args\<lparr>arg_max_daily_per_session := 3\<rparr>) example_manager))
   \<and> \<not> res_success (fst (add_users_to_group example_env example_args
         (example_manager\<lparr>phone_numbers := []\<rparr>)))
   \<and> \<not> res_success (fst (add_users_to_group overflow_env overflow_args example_manager))
   \<and> fst (snd (add_users_to_group overflow_env overflow_args example_manager))
       = [(''+1001'', ''S1'')]
   \<and> list_all2 (\<lambda>r r'. if row_phone r \<in> {''+1001''}
                         then row_phone r' = row_phone r
                              \<and> row_status r' \<in> {''added'', ''invited'', ''failed''}
                         else r' = r)
        (phone_numbers example_manager)
        (phone_numbers (snd (snd (add_users_to_group overflow_env overflow_args
                                    example_manager))))
   \<and> map row_status
        (phone_numbers (snd (snd (add_users_to_group overflow_env overflow_args
                                    example_manager))))
       = [''added'', ''pending'', ''pending'', ''pending'']"
proof -
  have triple: "x = (fst x, fst (snd x), snd (snd x))"
    for x :: "run_result \<times> (string \<times> string) list \<times> manager"
    by simp
  let ?e1 = "example_env\<lparr>resolve_target_group := Fails ''No such group''\<rparr>"
  let ?e2 = "example_env\<lparr>admin_client_for_group := None\<rparr>"
  let ?a3 = "example_args\<lparr>arg_max_daily_per_session := 3\<rparr>"
  let ?m4 = "example_manager\<lparr>phone_numbers := []\<rparr>"
  let ?r5 = "add_users_to_group overflow_env overflow_args example_manager"
  have c1: "resolve_target_group ?e1 = Fails ''No such group''" by simp
  have c2: "admin_client_for_group ?e2 = None" by simp
  have c3: "available_sessions example_env ?a3 example_manager = []"
    by (simp add: available_sessions_def prepare_sessions_def store_invite_message_def
        truthy_def load_all_sessions_def load_session_def admin_candidate_def
        user_candidates_def get_session_daily_limit_def example_env_def example_args_def
        example_manager_def example_limits_def)
  have c4: "get_pending_phone_numbers (phone_numbers ?m4) = []"
    by (simp add: get_pending_phone_numbers_def)
  from overflow_run obtain m5 where
    c5: "?r5 = (failure ''Group access failed: int too large to convert to float'',
                [(''+1001'', ''S1'')], m5)"
    and p5: "phone_numbers m5 = mark_phone_added ''+1001'' (phone_numbers example_manager)"
    by blast
  then have failed: "\<not> res_success (fst ?r5)" and asg: "fst (snd ?r5) = [(''+1001'', ''S1'')]"
    by (simp_all add: failure_def)
  have "phone_numbers (snd (snd ?r5))
          = mark_phone_added ''+1001'' (phone_numbers example_manager)"
    by (simp add: c5 p5)
  then have statuses: "map row_status (phone_numbers (snd (snd ?r5)))
                    = [''added'', ''pending'', ''pending'', ''pending'']"
    by (simp add: example_manager_def pending_row_def mark_phone_added_def
        set_phone_status_def)
  from run_level_failure_keeps_queue
         [OF triple[of "add_users_to_group ?e1 example_args example_manager"],
          of "''No such group''"] c1
  have r1: "\<not> res_success (fst (add_users_to_group ?e1 example_args example_manager))"
    "phone_numbers (snd (snd (add_users_to_group ?e1 example_args example_manager)))
       = phone_numbers example_manager"
    by blast+
  from run_level_failure_keeps_queue
         [OF triple[of "add_users_to_group ?e2 example_args example_manager"], of "[]"] c2
  have r2: "\<not> res_success (fst (add_users_to_group ?e2 example_args example_manager))"
    by blast
  from run_level_failure_keeps_queue
         [OF triple[of "add_users_to_group example_env ?a3 example_manager"], of "[]"] c3
  have r3: "\<not> res_success (fst (add_users_to_group example_env ?a3 example_manager))"
    by blast
  from run_level_failure_keeps_queue
         [OF triple[of "add_users_to_group example_env example_args ?m4"], of "[]"] c4
  have r4: "\<not> res_success (fst (add_users_to_group example_env example_args ?m4))"
    by blast
  from run_level_failure_keeps_queue[OF triple[of ?r5], of "[]"] failed
  have r5: "list_all2 (\<lambda>r r'. if row_phone r \<in> fst ` set (fst (snd ?r5))
                         then row_phone r' = row_phone r
                              \<and> row_status r' \<in> {''added'', ''invited'', ''failed''}
                         else r' = r)
        (phone_numbers example_manager) (phone_numbers (snd (snd ?r5)))"
    by blast
  have r5': "list_all2 (\<lambda>r r'. if row_phone r \<in> {''+1001''}
                         then row_phone r' = row_phone r
                              \<and> row_status r' \<in> {''added'', ''invited'', ''failed''}
                         else r' = r)
        (phone_numbers example_manager) (phone_numbers (snd (snd ?r5)))"
    using r5 unfolding asg by simp
  from r1 r2 r3 r4 failed asg r5' statuses show ?thesis by blast
qed



subsection \<open>The quota ledger during a run\<close>

text \<open>
  Claim C5, evaluated where the code departs from it. The ledger itself is as the claim
  says (lemmas \<open>remaining_is_cap_minus_count\<close> and \<open>increment_adds_one_to_its_count\<close>),
  but the increment is not performed only after a confirmed successful addition. The
  engine increments when \<^verbatim>\<open>_process_phone_number\<close> returns the text \<^verbatim>\<open>added\<close>, and
  that text is returned whenever \<^verbatim>\<open>_invite_entity_to_group\<close> reports a true result,
  which it also does when the invite request raises \<^verbatim>\<open>UserAlreadyParticipantError\<close>.
  In the run below every target is a participant of the group already, so nobody is
  added; yet S1, with 3 additions counted today, and S3, with 4, are charged for the
  three targets they were handed and end the run with a count of 5 and no quota left.
\<close>

theorem already_participant_charged_to_quota:
  "invite_entity_to_group Megagroup Already_participant = invite_succeeded
   \<and> fst (process_phone_number already_member ''S1'' ''+1001'' (Some ''https://t.me/+abc'')
           example_manager) = ''added''
   \<and> users_added (limits example_manager) ''S1'' ''2024-05-01'' = 3
   \<and> users_added (limits example_manager) ''S3'' ''2024-05-01'' = 4
   \<and> res_results (fst (add_users_to_group members_env example_args example_manager))
       = Some (counts 3 1)
   \<and> fst (snd (add_users_to_group members_env example_args example_manager))
       = [(''+1001'', ''S1''), (''+1002'', ''S3''), (''+1003'', ''S1'')]
   \<and> users_added
        (limits (snd (snd (add_users_to_group members_env example_args example_manager))))
        ''S1'' ''2024-05-01'' = 5
   \<and> users_added
        (limits (snd (snd (add_users_to_group members_env example_args example_manager))))
        ''S3'' ''2024-05-01'' = 5
   \<and> get_session_daily_limit
        (limits (snd (snd (add_users_to_group members_env example_args example_manager))))
        ''S1'' 5 ''2024-05-01'' = 0"
proof -
  have prep: "prepare_sessions members_env example_args example_manager
                = ([(''S1'', 2), (''S3'', 1)], example_manager)"
    unfolding members_env_def
    using example_prepare[where answers="\<lambda>session_name p. already_member"
        and sleeping="\<lambda>seconds. Done" and delay=0]
    by (simp add: example_env_def example_args_def)
  have env: "admin_client_for_group members_env = Some (File_client Admins ''Admin_1'')"
    "resolve_target_group members_env = Done" "run_today members_env = ''2024-05-01''"
    "\<And>p. removed_meanwhile members_env p = []" "sleep_answer members_env 0 = Done"
    "\<And>sn p. phone_answers members_env sn p = already_member"
    by (simp_all add: members_env_def example_env_def)
  from run_two_candidates[OF prep env(1,2,3,4,5)] already_member_answers env(6)
  obtain m' where
    run: "add_users_to_group members_env example_args example_manager
          = (\<lparr>res_success = True, res_message = None, res_results = Some (counts 3 1),
              res_error = None\<rparr>,
             [(''+1001'', ''S1''), (''+1002'', ''S3''), (''+1003'', ''S1'')], m')"
    and lims: "limits m'
          = increment_session_limit (increment_session_limit (increment_session_limit
              example_limits ''S1'' ''2024-05-01'') ''S3'' ''2024-05-01'') ''S1'' ''2024-05-01''"
    by auto
  have before: "users_added (limits example_manager) ''S1'' ''2024-05-01'' = 3"
    "users_added (limits example_manager) ''S3'' ''2024-05-01'' = 4"
    by (simp_all add: users_added_def example_manager_def example_limits_def)
  have after: "users_added (limits m') ''S1'' ''2024-05-01'' = 5"
    "users_added (limits m') ''S3'' ''2024-05-01'' = 5"
    using before
    by (simp_all add: lims increment_adds_one_to_its_count example_manager_def)
  have remaining: "get_session_daily_limit (limits m') ''S1'' 5 ''2024-05-01'' = 0"
    by (simp add: remaining_is_cap_minus_count after)
  have invite: "invite_entity_to_group Megagroup Already_participant = invite_succeeded"
    by (simp add: invite_entity_to_group_def request_result_def)
  have outcome: "fst (process_phone_number already_member ''S1'' ''+1001''
                        (Some ''https://t.me/+abc'') example_manager) = ''added''"
    by (rule invite_reported_success(1)[OF already_member_answers])
  from invite outcome before after remaining show ?thesis
    by (simp add: run)
qed

subsection \<open>Temporary contacts\<close>

lemma handle_add_error_contacts:
  "contacts (snd (handle_add_error pe invite_link p e m)) = contacts m"
  by (simp add: handle_add_error_def set_phones_def Let_def)

lemma try_add_contacts: "contacts (snd (try_add pe invite_link p m)) = contacts m"
  by (simp add: try_add_def set_phones_def Let_def handle_add_error_contacts split: call.splits)

text \<open>
  When the session's client resolves the group, the contact list of the session after
  processing is determined as follows: untouched for a phone among the active contacts;
  otherwise the phone is imported and, if the deletion succeeds, removed again.
\<close>

lemma contacts_after_processing:
  assumes "pe_resolve_group pe = Done"
  shows "contacts (snd (process_phone_number pe session_name p invite_link m)) session_name
     = (if p \<in> pe_active_contacts pe then contacts m session_name
        else if pe_import_contacts pe = Done
        then (if pe_delete_contact pe = Done then contacts m session_name - {p}
              else insert p (contacts m session_name))
        else contacts m session_name)"
  using assms
  by (simp add: process_phone_number_def Let_def case_prod_beta try_add_contacts)

text \<open>
  Claim C8, evaluated where the code departs from it. Session S1 has no contacts and
  processes phone \<^verbatim>\<open>+1001\<close>; the import of the temporary contact succeeds and the
  session's client then fails to resolve the group. That call stands before the inner
  \<^verbatim>\<open>try\<close>, so its \<^verbatim>\<open>finally\<close> is never reached: the phone is marked \<^verbatim>\<open>failed\<close> and
  stays in the contact list of S1.
\<close>

theorem temp_contact_left_behind:
  "contacts example_manager ''S1'' = {}
   \<and> fst (process_phone_number group_unresolved ''S1'' ''+1001'' (Some ''https://t.me/+abc'')
           example_manager) = ''Could not find the input entity''
   \<and> contacts (snd (process_phone_number group_unresolved ''S1'' ''+1001''
                      (Some ''https://t.me/+abc'') example_manager)) ''S1'' = {''+1001''}
   \<and> map row_status
        (phone_numbers (snd (process_phone_number group_unresolved ''S1'' ''+1001''
                               (Some ''https://t.me/+abc'') example_manager)))
       = [''failed'', ''pending'', ''pending'', ''pending'']"
  by (simp add: process_phone_number_def group_unresolved_def all_added_def example_manager_def
      set_phones_def mark_phone_failed_def set_phone_status_def pending_row_def Let_def)

section \<open>Properties of the QR login\<close>

text \<open>
  While the identity is registered in \<^verbatim>\<open>user_sessions\<close> and the new client disconnects,
  a completed login is refused: no row, file or registry entry is added, the attempt
  becomes \<^verbatim>\<open>duplicate\<close> and the client is disconnected.
\<close>

lemma duplicate_when_identity_registered:
  assumes "get_me env c = Me uid" and "truthy (user_sessions m uid)"
      and "\<not> disconnect_raises env c" and "qr_sessions m session_name = Some a"
  shows "db_sessions (save_valid_session env session_name c m) = db_sessions m
       \<and> session_files (save_valid_session env session_name c m) = session_files m
       \<and> sessions (save_valid_session env session_name c m) = sessions m
       \<and> map_option qr_status
           (qr_sessions (save_valid_session env session_name c m) session_name)
           = Some ''duplicate''
       \<and> c \<in> set (disconnected (save_valid_session env session_name c m))"
  using assms by (simp add: save_valid_session_def disconnect_def Let_def)

lemma after_first_login_state:
  "after_first_login =
     empty_manager\<lparr>
       sessions := [(''Session_A'', File_client Users ''Session_A'')],
       qr_sessions := (\<lambda>name. None)(''Session_A'' \<mapsto>
          \<lparr>qr_status = ''scanned'', qr_message = None, qr_client = None\<rparr>),
       user_sessions := (\<lambda>uid. None)(7 \<mapsto> ''Session_A''),
       db_sessions := [\<lparr>sess_name = ''Session_A'', sess_status = ''active''\<rparr>],
       session_files := (\<lambda>f. None)((Users, ''Session_A'') \<mapsto> 7),
       disconnected := [Memory_client 0, File_client Users ''Session_A'']\<rparr>"
  by (simp add: after_first_login_def wait_for_scan_def scanned_by_7_def save_valid_session_def
      truthy_def begin_qr_attempt_def empty_manager_def persist_authorized_session_def
      set_qr_status_def create_session_def disconnect_quietly_def disconnect_def Let_def)

lemma after_restart_state:
  "after_restart =
     empty_manager\<lparr>
       db_sessions := [\<lparr>sess_name = ''Session_A'', sess_status = ''active''\<rparr>],
       session_files := (\<lambda>f. None)((Users, ''Session_A'') \<mapsto> 7),
       disconnected := [Memory_client 0, File_client Users ''Session_A'']\<rparr>"
  by (simp add: after_restart_def after_first_login_state restart_def empty_manager_def)

lemma after_reload_state:
  "after_reload =
     empty_manager\<lparr>
       sessions := [(''Session_A'', File_client Users ''Session_A'')],
       db_sessions := [\<lparr>sess_name = ''Session_A'', sess_status = ''active''\<rparr>],
       session_files := (\<lambda>f. None)((Users, ''Session_A'') \<mapsto> 7),
       disconnected := [Memory_client 0, File_client Users ''Session_A'']\<rparr>"
  by (simp add: after_reload_def after_restart_state load_all_sessions_def load_session_def
      empty_manager_def)

text \<open>Loading sessions never writes \<^verbatim>\<open>user_sessions\<close>.\<close>

lemma load_all_sessions_user_sessions:
  "user_sessions (load_all_sessions answers m) = user_sessions m"
proof -
  have "user_sessions (fold (load_session answers) rows x) = user_sessions x" for rows x
    by (induction rows arbitrary: x)
       (auto simp: load_session_def split: option.splits load_answer.splits)
  then show ?thesis by (simp add: load_all_sessions_def)
qed

lemmas second_login_defs =
  second_login_def persisted_sessions_of_def wait_for_scan_def scanned_by_7_def
  save_valid_session_def truthy_def begin_qr_attempt_def empty_manager_def
  persist_authorized_session_def set_qr_status_def create_session_def
  disconnect_quietly_def disconnect_def Let_def

text \<open>
  Claim C1, evaluated where the code departs from it. Identity 7 has logged in as
  \<^verbatim>\<open>Session_A\<close>. Before a restart a second login of the identity is refused as
  \<^verbatim>\<open>duplicate\<close>. After a restart \<^verbatim>\<open>user_sessions\<close>, which only
  \<^verbatim>\<open>_persist_authorized_session\<close> fills, is empty, and it stays empty when the sessions
  are loaded into the registry again. A second QR login of identity 7 is then persisted
  as \<^verbatim>\<open>Session_B\<close>, whether or not the sessions were loaded: two rows and two
  credential files exist for one identity and the attempt ends as \<^verbatim>\<open>scanned\<close>.
\<close>

theorem duplicate_check_lost_after_restart:
  "persisted_sessions_of after_first_login 7 = [''Session_A'']
   \<and> map_option qr_status (qr_sessions (second_login after_first_login) ''Session_B'')
       = Some ''duplicate''
   \<and> persisted_sessions_of (second_login after_first_login) 7 = [''Session_A'']
   \<and> user_sessions after_restart 7 = None
   \<and> user_sessions after_reload 7 = None
   \<and> map fst (sessions after_reload) = [''Session_A'']
   \<and> persisted_sessions_of (second_login after_restart) 7 = [''Session_A'', ''Session_B'']
   \<and> persisted_sessions_of (second_login after_reload) 7 = [''Session_A'', ''Session_B'']
   \<and> map_option qr_status (qr_sessions (second_login after_reload) ''Session_B'')
       = Some ''scanned''"
proof -
  have before: "persisted_sessions_of after_first_login 7 = [''Session_A'']"
    "map_option qr_status (qr_sessions (second_login after_first_login) ''Session_B'')
       = Some ''duplicate''"
    "persisted_sessions_of (second_login after_first_login) 7 = [''Session_A'']"
    by (simp_all add: after_first_login_state second_login_defs)
  have maps: "user_sessions after_restart 7 = None" "user_sessions after_reload 7 = None"
    "map fst (sessions after_reload) = [''Session_A'']"
    by (simp_all add: after_restart_state after_reload_state empty_manager_def)
  have unloaded:
    "persisted_sessions_of (second_login after_restart) 7 = [''Session_A'', ''Session_B'']"
    by (simp add: after_restart_state second_login_defs)
  have loaded:
    "persisted_sessions_of (second_login after_reload) 7 = [''Session_A'', ''Session_B'']"
    "map_option qr_status (qr_sessions (second_login after_reload) ''Session_B'')
       = Some ''scanned''"
    by (simp_all add: after_reload_state second_login_defs)
  from before maps unloaded loaded show ?thesis by simp
qed

text \<open>
  When the wait times out and the client disconnects, an attempt that is recorded
  becomes \<^verbatim>\<open>expired\<close>, the client is disconnected and no credential file of that name
  remains.
\<close>

lemma timeout_expires_when_disconnect_returns:
  assumes "scan_wait env = Timed_out" and "\<not> disconnect_raises env c"
      and "qr_sessions m session_name = Some a"
  shows "map_option qr_status (qr_sessions (wait_for_scan env session_name c m) session_name)
           = Some ''expired''
       \<and> c \<in> set (disconnected (wait_for_scan env session_name c m))
       \<and> session_files (wait_for_scan env session_name c m) (Users, session_name) = None
       \<and> session_files (wait_for_scan env session_name c m) (Admins, session_name) = None"
  using assms
  by (simp add: wait_for_scan_def cleanup_invalid_session_def disconnect_def set_qr_status_def)

text \<open>
  Claim C6, evaluated where the code departs from it. The attempt is \<^verbatim>\<open>waiting\<close>, the
  wait times out and \<^verbatim>\<open>disconnect()\<close> raises inside \<^verbatim>\<open>_cleanup_invalid_session\<close>. The
  handler of that method only logs, so the status is never written: the attempt is
  still \<^verbatim>\<open>waiting\<close> and no client was disconnected.
\<close>

theorem timed_out_attempt_left_waiting:
  "map_option qr_status
       (qr_sessions (wait_for_scan never_scanned ''Session_A'' (Memory_client 0)
                       (begin_qr_attempt ''Session_A'' empty_manager)) ''Session_A'')
     = Some ''waiting''
   \<and> disconnected (wait_for_scan never_scanned ''Session_A'' (Memory_client 0)
                       (begin_qr_attempt ''Session_A'' empty_manager)) = []"
  by (simp add: wait_for_scan_def never_scanned_def cleanup_invalid_session_def disconnect_def
      begin_qr_attempt_def empty_manager_def)

end
